theory Spec2Isabelle
  imports Complex_Main "HOL-Library.AList"
begin

section \<open>JavaScript values read by the console\<close>

text \<open>
  A JavaScript number is NaN, an infinity (\<open>Infinity True\<close> is the positive one), or
  a finite double. The code only tests numbers for truthiness and for (in)equality, and
  two finite doubles are \<open>===\<close> exactly when they denote the same real
  (\<open>-0 === 0\<close>), so a finite double is represented by the real it denotes.
\<close>

datatype jsnum = NaN | Infinity bool | Num real

text \<open>
  The tree that \<open>response.json()\<close> yields, plus \<open>undefined\<close>, which a property read
  of a missing key yields. An object is the list of its own properties, each key
  once.
\<close>

datatype json =
    JUndefined
  | JNull
  | JBool bool
  | JNumber jsnum
  | JString string
  | JArray "json list"
  | JObject "(string \<times> json) list"

datatype js_error = TypeError | InvalidStructure | FetchFailed | InvalidLatLng

text \<open>
  The conversions of the JavaScript runtime that are not part of the repository:
  the decimal rendering of a number, the string of an array or object, the numeric
  reading of a string (\<open>Number(s)\<close>), \<open>parseInt(s)\<close>, and \<open>String(error)\<close>.
  Every function below takes them as a parameter.
\<close>

record js_runtime =
  NumberToString :: "jsnum \<Rightarrow> string"
  ObjectToString :: "json \<Rightarrow> string"
  StringToNumber :: "string \<Rightarrow> jsnum"
  parseInt :: "string \<Rightarrow> jsnum"
  ErrorToString :: "js_error \<Rightarrow> string"

fun truthy :: "json \<Rightarrow> bool" where
  "truthy JUndefined = False"
| "truthy JNull = False"
| "truthy (JBool b) = b"
| "truthy (JNumber n) = (n \<noteq> NaN \<and> n \<noteq> Num 0)"
| "truthy (JString s) = (s \<noteq> [])"
| "truthy (JArray vs) = True"
| "truthy (JObject kvs) = True"

fun nullish :: "json \<Rightarrow> bool" where
  "nullish JUndefined = True"
| "nullish JNull = True"
| "nullish v = False"

text \<open>\<open>a || b\<close> and \<open>a ?? b\<close>; both operands are pure wherever the code uses them.\<close>

definition js_or :: "json \<Rightarrow> json \<Rightarrow> json" where
  "js_or a b = (if truthy a then a else b)"

definition coalesce :: "json \<Rightarrow> json \<Rightarrow> json" where
  "coalesce a b = (if nullish a then b else a)"

text \<open>
  \<open>v.k\<close> on a receiver that is neither \<open>null\<close> nor \<open>undefined\<close>, for the property
  names the code reads (none of them is \<open>length\<close>, an index, or a prototype method):
  the own property of an object, \<open>undefined\<close> on anything else.
\<close>

fun member :: "json \<Rightarrow> string \<Rightarrow> json" where
  "member (JObject kvs) k = (case map_of kvs k of Some v \<Rightarrow> v | None \<Rightarrow> JUndefined)"
| "member v k = JUndefined"

text \<open>\<open>v.k\<close> on any receiver: a TypeError on \<open>null\<close> and \<open>undefined\<close>.\<close>

definition member_strict :: "json \<Rightarrow> string \<Rightarrow> js_error + json" where
  "member_strict v k = (if nullish v then Inl TypeError else Inr (member v k))"

text \<open>\<open>v?.k\<close>\<close>

definition opt_member :: "json \<Rightarrow> string \<Rightarrow> json" where
  "opt_member v k = (if nullish v then JUndefined else member v k)"

text \<open>\<open>String(v)\<close>\<close>

fun String_js :: "js_runtime \<Rightarrow> json \<Rightarrow> string" where
  "String_js rt JUndefined = ''undefined''"
| "String_js rt JNull = ''null''"
| "String_js rt (JBool b) = (if b then ''true'' else ''false'')"
| "String_js rt (JNumber n) = NumberToString rt n"
| "String_js rt (JString s) = s"
| "String_js rt (JArray vs) = ObjectToString rt (JArray vs)"
| "String_js rt (JObject kvs) = ObjectToString rt (JObject kvs)"

text \<open>\<open>Number(v)\<close>\<close>

fun Number_js :: "js_runtime \<Rightarrow> json \<Rightarrow> jsnum" where
  "Number_js rt JUndefined = NaN"
| "Number_js rt JNull = Num 0"
| "Number_js rt (JBool b) = (if b then Num 1 else Num 0)"
| "Number_js rt (JNumber n) = n"
| "Number_js rt (JString s) = StringToNumber rt s"
| "Number_js rt (JArray vs) = StringToNumber rt (ObjectToString rt (JArray vs))"
| "Number_js rt (JObject kvs) = StringToNumber rt (ObjectToString rt (JObject kvs))"

section \<open>The device model\<close>

record DeviceTelemetry =
  latitude :: jsnum
  longitude :: jsnum
  height :: jsnum
  speed :: jsnum
  battery_percent :: json
  link_signal_quality :: jsnum
  flight_time :: jsnum
  yaw :: jsnum
  pitch :: jsnum
  roll :: jsnum

record Device =
  device_sn :: string
  nickname :: string
  device_model :: string
  status :: bool
  domain :: nat
  telemetry :: "DeviceTelemetry option"
  raw :: json

record TopologyResponse =
  code :: json
  message :: string
  data :: "Device list"

section \<open>getProjectTopology: the telemetry normalizer\<close>

text \<open>
  Step 1 of the per-entry callback: \<open>d.domain ?? d.device_model?.domain\<close>, then the
  prefix of \<open>device_model_key\<close> before the first \<open>-\<close> read by \<open>parseInt\<close>. Only a
  string has a \<open>split\<close> method: any other truthy \<open>device_model_key\<close> is a TypeError.
\<close>

definition domainVal :: "js_runtime \<Rightarrow> json \<Rightarrow> js_error + json" where
  "domainVal rt d =
     (let dv = coalesce (member d ''domain'') (opt_member (member d ''device_model'') ''domain'')
      in if dv = JUndefined \<and> truthy (member d ''device_model_key'')
         then (case member d ''device_model_key'' of
                 JString s \<Rightarrow> Inr (JNumber (parseInt rt (takeWhile (\<lambda>c. c \<noteq> CHR ''-'') s)))
               | _ \<Rightarrow> Inl TypeError)
         else Inr dv)"

definition isOnline :: "json \<Rightarrow> bool" where
  "isOnline d =
     (member d ''device_online_status'' = JBool True
      \<or> member d ''device_online_status'' = JNumber (Num 1))"

definition modelName :: "json \<Rightarrow> json" where
  "modelName d =
     js_or (js_or (opt_member (member d ''device_model'') ''name'')
                  (opt_member (member d ''device_model'') ''key''))
           (JString ''Drone'')"

definition device_state :: "json \<Rightarrow> json" where
  "device_state d = js_or (member d ''device_state'') (JObject [])"

text \<open>
  Step 5, position: the live values, replaced by the offline position when both are
  \<open>0\<close> and \<open>device_offline_position\<close> is truthy.
\<close>

definition resolve_position :: "js_runtime \<Rightarrow> json \<Rightarrow> jsnum \<times> jsnum" where
  "resolve_position rt d =
     (let state = device_state d;
          lat = Number_js rt (js_or (member state ''latitude'') (JNumber (Num 0)));
          lng = Number_js rt (js_or (member state ''longitude'') (JNumber (Num 0)))
      in if lat = Num 0 \<and> lng = Num 0 \<and> truthy (member d ''device_offline_position'')
         then (Number_js rt (js_or (member (member d ''device_offline_position'') ''latitude'')
                                   (JNumber (Num 0))),
               Number_js rt (js_or (member (member d ''device_offline_position'') ''longitude'')
                                   (JNumber (Num 0))))
         else (lat, lng))"

text \<open>
  Battery: \<open>batteries[0].capacity_percent\<close> is a TypeError when the first element of
  the list is \<open>null\<close>.
\<close>

definition resolve_battery :: "json \<Rightarrow> js_error + json" where
  "resolve_battery state =
     (if truthy (member state ''battery'')
      then (let batteryPercent =
                  coalesce (member (member state ''battery'') ''capacity_percent'')
                           (JNumber (Num 0))
            in if batteryPercent = JNumber (Num 0)
               then (case member (member state ''battery'') ''batteries'' of
                       JArray (b # bs) \<Rightarrow>
                         (case member_strict b ''capacity_percent'' of
                            Inl e \<Rightarrow> Inl e
                          | Inr p \<Rightarrow> Inr (coalesce p (JNumber (Num 0))))
                     | _ \<Rightarrow> Inr batteryPercent)
               else Inr batteryPercent)
      else Inr (JNumber (Num 0)))"

definition num_field :: "js_runtime \<Rightarrow> json \<Rightarrow> string \<Rightarrow> jsnum" where
  "num_field rt state k = Number_js rt (js_or (member state k) (JNumber (Num 0)))"

definition build_telemetry ::
  "js_runtime \<Rightarrow> json \<Rightarrow> jsnum \<Rightarrow> jsnum \<Rightarrow> json \<Rightarrow> bool \<Rightarrow> DeviceTelemetry option" where
  "build_telemetry rt state lat lng batteryPercent online =
     (if lat \<noteq> Num 0 \<or> lng \<noteq> Num 0 \<or> online
      then Some \<lparr> latitude = lat,
                  longitude = lng,
                  height = Number_js rt (js_or (js_or (member state ''height'')
                                                      (member state ''elevation''))
                                               (JNumber (Num 0))),
                  speed = num_field rt state ''horizontal_speed'',
                  battery_percent = batteryPercent,
                  link_signal_quality =
                    Number_js rt (js_or (opt_member (member state ''wireless_link'') ''sdr_quality'')
                                        (JNumber (Num 0))),
                  flight_time = num_field rt state ''total_flight_time'',
                  yaw = Number_js rt (js_or (js_or (member state ''attitude_head'')
                                                   (member state ''heading''))
                                            (JNumber (Num 0))),
                  pitch = num_field rt state ''attitude_pitch'',
                  roll = num_field rt state ''attitude_roll'' \<rparr>
      else None)"

text \<open>
  The part of the callback after \<open>const d = item.host; if (!d) return;\<close>.
  \<open>Inl\<close> is a thrown error, \<open>Inr None\<close> an early \<open>return\<close>, \<open>Inr (Some dev)\<close> a push.
\<close>

definition process_host :: "js_runtime \<Rightarrow> json \<Rightarrow> js_error + Device option" where
  "process_host rt d =
     (case domainVal rt d of
        Inl e \<Rightarrow> Inl e
      | Inr dv \<Rightarrow>
          if Number_js rt dv \<noteq> Num 0 then Inr None
          else let sn = js_or (member d ''device_sn'') (member d ''sn'')
               in if \<not> truthy sn then Inr None
                  else let online = isOnline d;
                           name = modelName d;
                           nick = js_or (js_or (member d ''device_project_callsign'')
                                               (member d ''device_organization_callsign''))
                                        name;
                           state = device_state d;
                           pos = resolve_position rt d
                       in case resolve_battery state of
                            Inl e \<Rightarrow> Inl e
                          | Inr batteryPercent \<Rightarrow>
                              Inr (Some \<lparr> device_sn = String_js rt sn,
                                          nickname = String_js rt nick,
                                          device_model = String_js rt name,
                                          status = online,
                                          domain = 0,
                                          telemetry = build_telemetry rt state (fst pos) (snd pos)
                                                        batteryPercent online,
                                          raw = d \<rparr>))"

definition process_item :: "js_runtime \<Rightarrow> json \<Rightarrow> js_error + Device option" where
  "process_item rt item =
     (case member_strict item ''host'' of
        Inl e \<Rightarrow> Inl e
      | Inr d \<Rightarrow> if \<not> truthy d then Inr None else process_host rt d)"

text \<open>\<open>rawData.data.list.forEach\<close>, pushing onto \<open>processedDevices\<close>; a throw ends the loop.\<close>

fun process_list :: "js_runtime \<Rightarrow> json list \<Rightarrow> Device list \<Rightarrow> js_error + Device list" where
  "process_list rt [] processedDevices = Inr processedDevices"
| "process_list rt (item # items) processedDevices =
     (case process_item rt item of
        Inl e \<Rightarrow> Inl e
      | Inr None \<Rightarrow> process_list rt items processedDevices
      | Inr (Some dev) \<Rightarrow> process_list rt items (processedDevices @ [dev]))"

text \<open>
  What the \<open>fetch\<close> gave: a rejection (or an unusable URL), or a response with its
  status, the text of its body (\<open>statusText\<close> when the text cannot be read) and the
  body parsed as JSON (\<open>None\<close> when it does not parse).
\<close>

datatype http_exchange = FetchRejected | Responded nat string "json option"

definition response_ok :: "nat \<Rightarrow> bool" where
  "response_ok st = (200 \<le> st \<and> st \<le> 299)"

fun decimal :: "nat \<Rightarrow> string" where
  "decimal n = (if n < 10 then [''0123456789'' ! n]
                else decimal (n div 10) @ [''0123456789'' ! (n mod 10)])"

text \<open>The body of the \<open>try\<close> once the response has arrived and is \<open>ok\<close>.\<close>

definition parse_topology :: "js_runtime \<Rightarrow> json option \<Rightarrow> js_error + TopologyResponse" where
  "parse_topology rt body =
     (let rawData = (case body of None \<Rightarrow> JNull | Some v \<Rightarrow> v)
      in if \<not> truthy rawData \<or> \<not> truthy (member rawData ''data'')
         then Inl InvalidStructure
         else case member (member rawData ''data'') ''list'' of
                JArray items \<Rightarrow>
                  (case process_list rt items [] of
                     Inl e \<Rightarrow> Inl e
                   | Inr processedDevices \<Rightarrow>
                       Inr \<lparr> code = js_or (member rawData ''code'') (JNumber (Num 0)),
                             message = (if length processedDevices = 0
                                        then ''No drones detected'' else ''Success''),
                             data = processedDevices \<rparr>)
              | _ \<Rightarrow> Inl InvalidStructure)"

text \<open>
  The \<open>!response.ok\<close> branch: the status is the code unless the body parses to a value
  with a truthy \<open>code\<close> (reading \<open>code\<close> of a parsed \<open>null\<close> throws inside the inner
  \<open>try\<close>, which leaves the status).
\<close>

definition error_response :: "nat \<Rightarrow> string \<Rightarrow> json option \<Rightarrow> TopologyResponse" where
  "error_response st errText body =
     \<lparr> code = (case body of
                 None \<Rightarrow> JNumber (Num (of_nat st))
               | Some errJson \<Rightarrow>
                   (case member_strict errJson ''code'' of
                      Inl e \<Rightarrow> JNumber (Num (of_nat st))
                    | Inr c \<Rightarrow> if truthy c then c else JNumber (Num (of_nat st)))),
       message = ''Topology API Error: '' @ decimal st @ '' - '' @ take 50 errText,
       data = [] \<rparr>"

text \<open>
  \<open>String(error)\<close> in the outer \<open>catch\<close>: the text of the error the function throws
  itself is fixed by the source, that of a runtime error is the runtime's.
\<close>

definition error_string :: "js_runtime \<Rightarrow> js_error \<Rightarrow> string" where
  "error_string rt e =
     (case e of
        InvalidStructure \<Rightarrow> ''Error: Invalid topology response structure''
      | _ \<Rightarrow> ErrorToString rt e)"

definition caught :: "js_runtime \<Rightarrow> js_error \<Rightarrow> TopologyResponse" where
  "caught rt e = \<lparr> code = JNumber (Num (- 1)), message = error_string rt e, data = [] \<rparr>"

definition getProjectTopology :: "js_runtime \<Rightarrow> http_exchange \<Rightarrow> TopologyResponse" where
  "getProjectTopology rt x =
     (case x of
        FetchRejected \<Rightarrow> caught rt FetchFailed
      | Responded st errText body \<Rightarrow>
          if \<not> response_ok st then error_response st errText body
          else (case parse_topology rt body of
                  Inl e \<Rightarrow> caught rt e
                | Inr r \<Rightarrow> r))"

section \<open>fetchDevices: the poller\<close>

text \<open>\<open>isLinkHealthy\<close> is \<open>true\<close>, \<open>'unauthorized'\<close> or \<open>false\<close>.\<close>

datatype LinkHealth = Healthy | Unauthorized | Unhealthy

record AppState =
  devices :: "Device list"
  isLoadingDevices :: bool
  lastPollTime :: nat
  isLinkHealthy :: LinkHealth

text \<open>
  What \<open>await getProjectTopology(appSettings)\<close> gives: a rejection, or a value, which
  the code tests for truthiness (\<open>None\<close> is a falsy value).
\<close>

datatype awaited = Rejected | Resolved "TopologyResponse option"

text \<open>\<open>s.includes(sub)\<close>\<close>

fun str_includes :: "string \<Rightarrow> string \<Rightarrow> bool" where
  "str_includes [] sub = (sub = [])"
| "str_includes (c # cs) sub = (take (length sub) (c # cs) = sub \<or> str_includes cs sub)"

text \<open>The \<open>try\<close>/\<open>catch\<close> of \<open>fetchDevices\<close>, run when the fetch completes at time \<open>now\<close>.\<close>

definition apply_response :: "nat \<Rightarrow> awaited \<Rightarrow> AppState \<Rightarrow> AppState" where
  "apply_response now r st =
     (case r of
        Rejected \<Rightarrow> st\<lparr>isLinkHealthy := Unhealthy\<rparr>
      | Resolved None \<Rightarrow> st\<lparr>isLinkHealthy := Unhealthy\<rparr>
      | Resolved (Some response) \<Rightarrow>
          if code response = JNumber (Num 0)
          then st\<lparr>devices := data response, lastPollTime := now, isLinkHealthy := Healthy\<rparr>
          else if code response = JNumber (Num 200401) \<or> str_includes (message response) ''401''
          then st\<lparr>isLinkHealthy := Unauthorized\<rparr>
          else st\<lparr>isLinkHealthy := Unhealthy\<rparr>)"

text \<open>The part of \<open>fetchDevices\<close> before the \<open>await\<close>, and the part after it.\<close>

definition fetchDevices_issue :: "bool \<Rightarrow> AppState \<Rightarrow> AppState" where
  "fetchDevices_issue isBackground st =
     (if \<not> isBackground then st\<lparr>isLoadingDevices := True\<rparr> else st)"

definition fetchDevices_complete :: "bool \<Rightarrow> nat \<Rightarrow> awaited \<Rightarrow> AppState \<Rightarrow> AppState" where
  "fetchDevices_complete isBackground now r st =
     (let st' = apply_response now r st
      in if \<not> isBackground then st'\<lparr>isLoadingDevices := False\<rparr> else st')"

text \<open>One poll cycle with nothing else interleaved between its two halves.\<close>

definition fetchDevices :: "bool \<Rightarrow> nat \<Rightarrow> awaited \<Rightarrow> AppState \<Rightarrow> AppState" where
  "fetchDevices isBackground now r st =
     fetchDevices_complete isBackground now r (fetchDevices_issue isBackground st)"

text \<open>
  Overlapping polls: the completions of the fetches in flight, in the order in which
  they complete. Each carries the number under which its fetch was issued (the code
  keeps no such number; it only names the fetch), whether it is a background fetch,
  the time of completion and the awaited value.
\<close>

type_synonym completion = "nat \<times> bool \<times> nat \<times> awaited"

fun run_completions :: "completion list \<Rightarrow> AppState \<Rightarrow> AppState" where
  "run_completions [] st = st"
| "run_completions ((issued, isBackground, now, r) # cs) st =
     run_completions cs (fetchDevices_complete isBackground now r st)"

text \<open>The state of \<open>App\<close> after the first render.\<close>

definition initial_state :: AppState where
  "initial_state =
     \<lparr> devices = [], isLoadingDevices = False, lastPollTime = 0, isLinkHealthy = Unhealthy \<rparr>"

section \<open>The device-marker effect of MapPicker: the marker reconciler\<close>

text \<open>\<open>a !== b\<close> on numbers\<close>

definition strict_ne :: "jsnum \<Rightarrow> jsnum \<Rightarrow> bool" where
  "strict_ne a b = (a = NaN \<or> b = NaN \<or> a \<noteq> b)"

text \<open>
  The icon is built from the device's status (colour, opacity) and yaw (rotation);
  the popup's HTML from the fields listed in \<open>PopupContent\<close>. Both are kept as the
  values the templates are filled with.
\<close>

record DroneIcon =
  icon_status :: bool
  icon_yaw :: jsnum

record PopupContent =
  popup_nickname :: string
  popup_device_model :: string
  popup_status :: bool
  popup_lat :: jsnum
  popup_lon :: jsnum
  popup_speed :: jsnum
  popup_height :: jsnum
  popup_batt :: json
  popup_flightTime :: jsnum
  popup_link_signal_quality :: jsnum
  popup_sn :: string

text \<open>
  What the map surface holds for one marker. The user opens and closes the popup
  between passes; no call that the effect makes on a marker it keeps does.
\<close>

record Marker =
  latlng :: "jsnum \<times> jsnum"
  icon :: DroneIcon
  popup :: PopupContent
  popup_open :: bool
  zIndexOffset :: nat

text \<open>The calls made on the map surface, each on the marker of a serial number.\<close>

datatype map_op =
    NewMarker string "jsnum \<times> jsnum" DroneIcon nat
  | AddTo string
  | SetLatLng string "jsnum \<times> jsnum"
  | SetIcon string DroneIcon
  | SetPopupContent string PopupContent
  | BindPopup string PopupContent
  | SetZIndexOffset string nat
  | RemoveMarker string

record effect_state =
  markersMap :: "(string \<times> Marker) list"
  activeSns :: "string set"
  ops :: "map_op list"

definition createIcon :: "Device \<Rightarrow> DeviceTelemetry \<Rightarrow> DroneIcon" where
  "createIcon device t = \<lparr> icon_status = status device, icon_yaw = yaw t \<rparr>"

definition popupContent :: "Device \<Rightarrow> DeviceTelemetry \<Rightarrow> PopupContent" where
  "popupContent device t =
     \<lparr> popup_nickname = nickname device,
       popup_device_model = device_model device,
       popup_status = status device,
       popup_lat = latitude t,
       popup_lon = longitude t,
       popup_speed = speed t,
       popup_height = height t,
       popup_batt = battery_percent t,
       popup_flightTime = flight_time t,
       popup_link_signal_quality = link_signal_quality t,
       popup_sn = device_sn device \<rparr>"

definition zIndex :: "Device \<Rightarrow> nat" where
  "zIndex device = (if status device then 1000 else 500)"

text \<open>
  The branch for a serial that has a marker. The map library refuses a NaN coordinate:
  \<open>setLatLng\<close> throws \<open>Invalid LatLng object\<close>, before anything is changed.
\<close>

definition update_marker ::
  "Device \<Rightarrow> DeviceTelemetry \<Rightarrow> Marker \<Rightarrow> js_error + (Marker \<times> map_op list)" where
  "update_marker device t marker =
     (let lat = latitude t; lon = longitude t; sn = device_sn device;
          moved = (strict_ne (fst (latlng marker)) lat \<or> strict_ne (snd (latlng marker)) lon)
      in if moved \<and> (lat = NaN \<or> lon = NaN) then Inl InvalidLatLng
         else Inr (marker\<lparr> latlng := (if moved then (lat, lon) else latlng marker),
                            icon := createIcon device t,
                            popup := popupContent device t,
                            zIndexOffset := zIndex device \<rparr>,
                   (if moved then [SetLatLng sn (lat, lon)] else [])
                   @ [SetIcon sn (createIcon device t),
                      (if popup_open marker then SetPopupContent sn (popupContent device t)
                       else BindPopup sn (popupContent device t)),
                      SetZIndexOffset sn (zIndex device)]))"

text \<open>The branch for a serial without a marker; \<open>L.marker\<close> throws on a NaN coordinate.\<close>

definition create_marker ::
  "Device \<Rightarrow> DeviceTelemetry \<Rightarrow> js_error + (Marker \<times> map_op list)" where
  "create_marker device t =
     (let lat = latitude t; lon = longitude t; sn = device_sn device
      in if lat = NaN \<or> lon = NaN then Inl InvalidLatLng
         else Inr (\<lparr> latlng = (lat, lon),
                      icon = createIcon device t,
                      popup = popupContent device t,
                      popup_open = False,
                      zIndexOffset = zIndex device \<rparr>,
                   [NewMarker sn (lat, lon) (createIcon device t) (zIndex device),
                    BindPopup sn (popupContent device t),
                    AddTo sn]))"

text \<open>
  The body of \<open>devices.forEach\<close>. A throw leaves the loop with what was done so far
  (\<open>Inl\<close>, with the state at the throw).
\<close>

definition place_device ::
  "Device \<Rightarrow> effect_state \<Rightarrow> (js_error \<times> effect_state) + effect_state" where
  "place_device device st =
     (case telemetry device of
        None \<Rightarrow> Inr st
      | Some t \<Rightarrow>
          if strict_ne (latitude t) (Num 0) \<or> strict_ne (longitude t) (Num 0)
          then let sn = device_sn device;
                   st1 = st\<lparr>activeSns := insert sn (activeSns st)\<rparr>
               in (case map_of (markersMap st1) sn of
                     Some marker \<Rightarrow>
                       (case update_marker device t marker of
                          Inl e \<Rightarrow> Inl (e, st1)
                        | Inr (marker', calls) \<Rightarrow>
                            Inr (st1\<lparr> markersMap := AList.update sn marker' (markersMap st1),
                                      ops := ops st1 @ calls \<rparr>))
                   | None \<Rightarrow>
                       (case create_marker device t of
                          Inl e \<Rightarrow> Inl (e, st1)
                        | Inr (marker, calls) \<Rightarrow>
                            Inr (st1\<lparr> markersMap := AList.update sn marker (markersMap st1),
                                      ops := ops st1 @ calls \<rparr>)))
          else Inr st)"

fun place_devices ::
  "Device list \<Rightarrow> effect_state \<Rightarrow> (js_error \<times> effect_state) + effect_state" where
  "place_devices [] st = Inr st"
| "place_devices (device # rest) st =
     (case place_device device st of
        Inl x \<Rightarrow> Inl x
      | Inr st' \<Rightarrow> place_devices rest st')"

text \<open>\<open>markersMap.forEach\<close>: remove and delete every marker whose serial is not active.\<close>

definition sweep :: "effect_state \<Rightarrow> effect_state" where
  "sweep st =
     st\<lparr> markersMap := AList.restrict (activeSns st) (markersMap st),
         ops := ops st @ map RemoveMarker [sn \<leftarrow> map fst (markersMap st). sn \<notin> activeSns st] \<rparr>"

text \<open>
  The effect, run on a new \<open>devices\<close> array with the marker table as it stands.
  \<open>mapReady\<close> says that \<open>mapInstanceRef.current\<close> is set; without a map the effect
  returns at once.
\<close>

definition marker_effect ::
  "bool \<Rightarrow> Device list \<Rightarrow> (string \<times> Marker) list \<Rightarrow> (js_error \<times> effect_state) + effect_state" where
  "marker_effect mapReady devs markers =
     (if \<not> mapReady then Inr \<lparr> markersMap = markers, activeSns = {}, ops = [] \<rparr>
      else case place_devices devs \<lparr> markersMap = markers, activeSns = {}, ops = [] \<rparr> of
             Inl x \<Rightarrow> Inl x
           | Inr st \<Rightarrow> Inr (sweep st))"

section \<open>Properties stated over the model\<close>

text \<open>
  The domain code of a host record as the specification words it: the explicit domain
  field when the record has one, else the domain field of the model sub-record when it
  has one, else the integer prefix of the model key. A field that is missing or \<open>null\<close>
  is not there; a record with none of the three has no code, which is NaN here.
\<close>

definition domain_code :: "js_runtime \<Rightarrow> json \<Rightarrow> jsnum" where
  "domain_code rt d =
     (if \<not> nullish (member d ''domain'') then Number_js rt (member d ''domain'')
      else if \<not> nullish (opt_member (member d ''device_model'') ''domain'')
      then Number_js rt (opt_member (member d ''device_model'') ''domain'')
      else (case member d ''device_model_key'' of
              JString s \<Rightarrow>
                if s = [] then NaN else parseInt rt (takeWhile (\<lambda>c. c \<noteq> CHR ''-'') s)
            | _ \<Rightarrow> NaN))"

text \<open>
  The number that the filter of the code compares with \<open>0\<close>: \<open>Number(domainVal)\<close>, when
  computing \<open>domainVal\<close> does not throw.
\<close>

definition tested_domain :: "js_runtime \<Rightarrow> json \<Rightarrow> jsnum option" where
  "tested_domain rt d =
     (case domainVal rt d of Inl e \<Rightarrow> None | Inr dv \<Rightarrow> Some (Number_js rt dv))"

text \<open>
  Position resolution as the specification words it: the live pair, except that a
  live pair of two zeros is replaced by the offline position when there is one.
\<close>

definition position_spec :: "js_runtime \<Rightarrow> json \<Rightarrow> jsnum \<times> jsnum" where
  "position_spec rt d =
     (let live = (num_field rt (device_state d) ''latitude'',
                  num_field rt (device_state d) ''longitude'');
          offline = member d ''device_offline_position''
      in if live = (Num 0, Num 0)
         then (if truthy offline
               then (num_field rt offline ''latitude'', num_field rt offline ''longitude'')
               else (Num 0, Num 0))
         else live)"

text \<open>
  Battery resolution as the specification words it: the direct field when it is
  there and not \<open>0\<close>, else the field of the first entry of a non-empty \<open>batteries\<close>
  list, else \<open>0\<close>.
\<close>

definition battery_spec :: "json \<Rightarrow> json" where
  "battery_spec state =
     (let battery = member state ''battery'';
          direct = member battery ''capacity_percent''
      in if \<not> truthy battery then JNumber (Num 0)
         else if \<not> nullish direct \<and> direct \<noteq> JNumber (Num 0) then direct
         else (case member battery ''batteries'' of
                 JArray (first # others) \<Rightarrow>
                   coalesce (member first ''capacity_percent'') (JNumber (Num 0))
               | _ \<Rightarrow> JNumber (Num 0)))"

text \<open>The last of a series of completions that carries a response of code \<open>0\<close>.\<close>

fun last_success :: "completion list \<Rightarrow> TopologyResponse option" where
  "last_success [] = None"
| "last_success ((issued, isBackground, now, r) # cs) =
     (case last_success cs of
        Some response \<Rightarrow> Some response
      | None \<Rightarrow>
          (case r of
             Resolved (Some response) \<Rightarrow>
               if code response = JNumber (Num 0) then Some response else None
           | _ \<Rightarrow> None))"

text \<open>
  An auth-failure signal embedded in the body that the upstream sent: its code is
  the auth error code, or its message contains the marker.
\<close>

definition embedded_auth_signal :: "js_runtime \<Rightarrow> json \<Rightarrow> bool" where
  "embedded_auth_signal rt body =
     (member body ''code'' = JNumber (Num 200401)
      \<or> str_includes (String_js rt (member body ''message'')) ''401'')"

text \<open>
  The condition under which the effect gives a device a marker, and the case in which
  the map library throws on it.
\<close>

definition renderable :: "Device \<Rightarrow> bool" where
  "renderable device =
     (case telemetry device of
        None \<Rightarrow> False
      | Some t \<Rightarrow> strict_ne (latitude t) (Num 0) \<or> strict_ne (longitude t) (Num 0))"

definition nan_position :: "Device \<Rightarrow> bool" where
  "nan_position device =
     (case telemetry device of
        None \<Rightarrow> False
      | Some t \<Rightarrow> latitude t = NaN \<or> longitude t = NaN)"

text \<open>
  The marker that the effect leaves for a device: position, icon, popup content and
  z-order from the device; whether the popup is open is not touched by the effect.
\<close>

definition rendered_marker :: "Device \<Rightarrow> DeviceTelemetry \<Rightarrow> bool \<Rightarrow> Marker" where
  "rendered_marker device t is_open =
     \<lparr> latlng = (latitude t, longitude t),
       icon = createIcon device t,
       popup = popupContent device t,
       popup_open = is_open,
       zIndexOffset = zIndex device \<rparr>"

definition open_of :: "(string \<times> Marker) list \<Rightarrow> string \<Rightarrow> bool" where
  "open_of markers sn = (case map_of markers sn of None \<Rightarrow> False | Some m \<Rightarrow> popup_open m)"

text \<open>
  What one round of \<open>devices.forEach\<close> does to the marker table, and the calls it
  makes, as functions of the table alone (\<open>place_device_eq\<close> below).
\<close>

definition table_step :: "Device \<Rightarrow> (string \<times> Marker) list \<Rightarrow> (string \<times> Marker) list" where
  "table_step device markers =
     (case telemetry device of
        None \<Rightarrow> markers
      | Some t \<Rightarrow>
          if renderable device
          then AList.update (device_sn device)
                 (rendered_marker device t (open_of markers (device_sn device))) markers
          else markers)"

definition step_calls :: "Device \<Rightarrow> (string \<times> Marker) list \<Rightarrow> map_op list" where
  "step_calls device markers =
     (case telemetry device of
        None \<Rightarrow> []
      | Some t \<Rightarrow>
          if renderable device
          then (case map_of markers (device_sn device) of
                  Some marker \<Rightarrow>
                    (if strict_ne (fst (latlng marker)) (latitude t)
                        \<or> strict_ne (snd (latlng marker)) (longitude t)
                     then [SetLatLng (device_sn device) (latitude t, longitude t)] else [])
                    @ [SetIcon (device_sn device) (createIcon device t),
                       (if popup_open marker
                        then SetPopupContent (device_sn device) (popupContent device t)
                        else BindPopup (device_sn device) (popupContent device t)),
                       SetZIndexOffset (device_sn device) (zIndex device)]
                | None \<Rightarrow>
                    [NewMarker (device_sn device) (latitude t, longitude t)
                       (createIcon device t) (zIndex device),
                     BindPopup (device_sn device) (popupContent device t),
                     AddTo (device_sn device)])
          else [])"

fun table_run :: "Device list \<Rightarrow> (string \<times> Marker) list \<Rightarrow> (string \<times> Marker) list" where
  "table_run [] markers = markers"
| "table_run (device # rest) markers = table_run rest (table_step device markers)"

fun run_calls :: "Device list \<Rightarrow> (string \<times> Marker) list \<Rightarrow> map_op list" where
  "run_calls [] markers = []"
| "run_calls (device # rest) markers =
     step_calls device markers @ run_calls rest (table_step device markers)"

definition rendered_sns :: "Device list \<Rightarrow> string set" where
  "rendered_sns devs = device_sn ` {d \<in> set devs. renderable d}"

text \<open>
  The calls that re-apply icon, popup content and z-order; with \<open>SetLatLng\<close>, the
  calls that change a marker without creating or removing one.
\<close>

fun is_refresh :: "map_op \<Rightarrow> bool" where
  "is_refresh (SetIcon sn i) = True"
| "is_refresh (SetPopupContent sn c) = True"
| "is_refresh (BindPopup sn c) = True"
| "is_refresh (SetZIndexOffset sn z) = True"
| "is_refresh other = False"

fun is_update :: "map_op \<Rightarrow> bool" where
  "is_update (SetLatLng sn p) = True"
| "is_update other = is_refresh other"

text \<open>
  The three calls that re-apply to the marker of a device the icon, the popup content
  and the z-order that the marker already holds.
\<close>

definition reapplied :: "(string \<times> Marker) list \<Rightarrow> Device \<Rightarrow> map_op list" where
  "reapplied markers device =
     (case map_of markers (device_sn device) of
        None \<Rightarrow> []
      | Some marker \<Rightarrow>
          [SetIcon (device_sn device) (icon marker),
           (if popup_open marker then SetPopupContent (device_sn device) (popup marker)
            else BindPopup (device_sn device) (popup marker)),
           SetZIndexOffset (device_sn device) (zIndexOffset marker)])"

text \<open>A rendered device whose marker in the table is already the one the effect leaves.\<close>

definition settled :: "(string \<times> Marker) list \<Rightarrow> Device \<Rightarrow> bool" where
  "settled markers device =
     (case telemetry device of
        None \<Rightarrow> True
      | Some t \<Rightarrow>
          renderable device \<longrightarrow>
            \<not> nan_position device
            \<and> map_of markers (device_sn device)
                = Some (rendered_marker device t (open_of markers (device_sn device))))"

section \<open>Example inputs\<close>

text \<open>
  A runtime on which the examples are run. It reads and prints unsigned decimal
  integers; a string that is not one reads as NaN.
\<close>

definition digit_of :: "char \<Rightarrow> nat option" where
  "digit_of c = (if 48 \<le> (of_char c :: nat) \<and> (of_char c :: nat) \<le> 57
                 then Some (of_char c - 48) else None)"

fun leading_digits :: "string \<Rightarrow> nat list" where
  "leading_digits [] = []"
| "leading_digits (c # cs) = (case digit_of c of None \<Rightarrow> [] | Some k \<Rightarrow> k # leading_digits cs)"

definition digits_value :: "nat list \<Rightarrow> nat" where
  "digits_value ds = foldl (\<lambda>a k. 10 * a + k) 0 ds"

definition example_runtime :: js_runtime where
  "example_runtime =
     \<lparr> NumberToString = (\<lambda>n. case n of NaN \<Rightarrow> ''NaN''
                                | Infinity b \<Rightarrow> (if b then ''Infinity'' else ''-Infinity'')
                                | Num r \<Rightarrow> decimal (nat \<lfloor>r\<rfloor>)),
       ObjectToString = (\<lambda>v. case v of JArray vs \<Rightarrow> [] | _ \<Rightarrow> ''[object Object]''),
       StringToNumber = (\<lambda>s. if s = [] then Num 0
                              else if length (leading_digits s) = length s
                              then Num (real (digits_value (leading_digits s))) else NaN),
       parseInt = (\<lambda>s. if leading_digits s = [] then NaN
                        else Num (real (digits_value (leading_digits s)))),
       ErrorToString = (\<lambda>e. ''TypeError'') \<rparr>"

text \<open>
  Host records: an online drone without a live fix but with an offline position and a
  battery list; an offline drone known by its model key, with a live fix; an offline
  drone without any position; a dock; an online drone at position \<open>(0, 0)\<close>.
\<close>

definition host_A :: json where
  "host_A = JObject
     [(''domain'', JNumber (Num 0)),
      (''device_sn'', JString ''SN-A''),
      (''device_online_status'', JBool True),
      (''device_state'', JObject
         [(''latitude'', JNumber (Num 0)),
          (''longitude'', JNumber (Num 0)),
          (''battery'', JObject
             [(''capacity_percent'', JNumber (Num 0)),
              (''batteries'', JArray [JObject [(''capacity_percent'', JNumber (Num 55))]])])]),
      (''device_offline_position'', JObject
         [(''latitude'', JNumber (Num 12.3)), (''longitude'', JNumber (Num 45.6))])]"

definition host_B :: json where
  "host_B = JObject
     [(''device_model_key'', JString ''0-67-0''),
      (''sn'', JString ''SN-B''),
      (''device_state'', JObject
         [(''latitude'', JNumber (Num 1.5)),
          (''longitude'', JNumber (Num 2.5)),
          (''battery'', JObject [(''capacity_percent'', JNumber (Num 40))])])]"

definition host_C :: json where
  "host_C = JObject
     [(''device_model'', JObject [(''domain'', JNumber (Num 0)), (''name'', JString ''M30'')]),
      (''device_sn'', JString ''SN-C''),
      (''device_online_status'', JNumber (Num 0))]"

definition host_dock :: json where
  "host_dock = JObject [(''domain'', JNumber (Num 3)), (''device_sn'', JString ''DOCK-1'')]"

definition host_null_dock :: json where
  "host_null_dock = JObject
     [(''device_model'', JObject [(''domain'', JNull)]),
      (''device_model_key'', JString ''3-1-0''),
      (''device_sn'', JString ''DOCK-2'')]"

definition host_Z :: json where
  "host_Z = JObject
     [(''domain'', JNumber (Num 0)),
      (''device_sn'', JString ''SN-Z''),
      (''device_online_status'', JNumber (Num 1))]"

definition example_body :: json where
  "example_body = JObject
     [(''code'', JNumber (Num 0)),
      (''data'', JObject
         [(''list'', JArray
            [JObject [(''host'', host_A)],
             JObject [(''host'', host_dock)],
             JObject [(''children'', JArray [])],
             JObject [(''host'', host_B)],
             JObject [(''host'', host_C)]])])]"

definition example_exchange :: http_exchange where
  "example_exchange = Responded 200 [] (Some example_body)"

definition body_null_dock :: json where
  "body_null_dock = JObject
     [(''code'', JNumber (Num 0)),
      (''data'', JObject [(''list'', JArray [JObject [(''host'', host_null_dock)]])])]"

definition marker_in_message_body :: json where
  "marker_in_message_body = JObject
     [(''code'', JNumber (Num 5)),
      (''message'', JString ''401 Unauthorized''),
      (''data'', JObject [(''list'', JArray [])])]"

definition body_no_drones :: json where
  "body_no_drones = JObject
     [(''code'', JNumber (Num 0)),
      (''data'', JObject [(''list'', JArray [JObject [(''host'', host_dock)]])])]"

definition unauthorized_body :: json where
  "unauthorized_body =
     JObject [(''code'', JNumber (Num 200401)), (''message'', JString ''Unauthorized'')]"

definition unauthorized_body_with_list :: json where
  "unauthorized_body_with_list =
     JObject [(''code'', JNumber (Num 200401)),
              (''message'', JString ''Unauthorized''),
              (''data'', JObject [(''list'', JArray [JObject [(''host'', host_A)]])])]"

definition telemetry_A :: DeviceTelemetry where
  "telemetry_A =
     \<lparr> latitude = Num 12.3, longitude = Num 45.6, height = Num 0, speed = Num 0,
       battery_percent = JNumber (Num 55), link_signal_quality = Num 0, flight_time = Num 0,
       yaw = Num 0, pitch = Num 0, roll = Num 0 \<rparr>"

definition telemetry_B :: DeviceTelemetry where
  "telemetry_B =
     \<lparr> latitude = Num 1.5, longitude = Num 2.5, height = Num 0, speed = Num 0,
       battery_percent = JNumber (Num 40), link_signal_quality = Num 0, flight_time = Num 0,
       yaw = Num 0, pitch = Num 0, roll = Num 0 \<rparr>"

definition telemetry_Z :: DeviceTelemetry where
  "telemetry_Z =
     \<lparr> latitude = Num 0, longitude = Num 0, height = Num 0, speed = Num 0,
       battery_percent = JNumber (Num 0), link_signal_quality = Num 0, flight_time = Num 0,
       yaw = Num 0, pitch = Num 0, roll = Num 0 \<rparr>"

definition telemetry_A2 :: DeviceTelemetry where
  "telemetry_A2 = telemetry_A \<lparr> latitude := Num 13 \<rparr>"

definition device_A :: Device where
  "device_A =
     \<lparr> device_sn = ''SN-A'', nickname = ''Drone'', device_model = ''Drone'', status = True,
       domain = 0, telemetry = Some telemetry_A, raw = host_A \<rparr>"

definition device_B :: Device where
  "device_B =
     \<lparr> device_sn = ''SN-B'', nickname = ''Drone'', device_model = ''Drone'', status = False,
       domain = 0, telemetry = Some telemetry_B, raw = host_B \<rparr>"

definition device_C :: Device where
  "device_C =
     \<lparr> device_sn = ''SN-C'', nickname = ''M30'', device_model = ''M30'', status = False,
       domain = 0, telemetry = None, raw = host_C \<rparr>"

definition device_null_dock :: Device where
  "device_null_dock =
     \<lparr> device_sn = ''DOCK-2'', nickname = ''Drone'', device_model = ''Drone'', status = False,
       domain = 0, telemetry = None, raw = host_null_dock \<rparr>"

definition device_Z :: Device where
  "device_Z =
     \<lparr> device_sn = ''SN-Z'', nickname = ''Drone'', device_model = ''Drone'', status = True,
       domain = 0, telemetry = Some telemetry_Z, raw = host_Z \<rparr>"

definition response_A :: TopologyResponse where
  "response_A = \<lparr> code = JNumber (Num 0), message = ''Success'', data = [device_A] \<rparr>"

definition response_B :: TopologyResponse where
  "response_B = \<lparr> code = JNumber (Num 0), message = ''Success'', data = [device_B] \<rparr>"

definition state_A :: AppState where
  "state_A = \<lparr> devices = [device_A], isLoadingDevices = False, lastPollTime = 1000,
                isLinkHealthy = Healthy \<rparr>"

definition server_error :: http_exchange where
  "server_error = Responded 500 ''Internal Server Error'' None"

definition late_completions :: "completion list" where
  "late_completions = [(2, True, 2000, Resolved (Some response_B)),
                       (1, True, 2001, Resolved (Some response_A))]"

definition icon_A :: DroneIcon where
  "icon_A = \<lparr> icon_status = True, icon_yaw = Num 0 \<rparr>"

definition popup_A :: PopupContent where
  "popup_A =
     \<lparr> popup_nickname = ''Drone'', popup_device_model = ''Drone'', popup_status = True,
       popup_lat = Num 12.3, popup_lon = Num 45.6, popup_speed = Num 0, popup_height = Num 0,
       popup_batt = JNumber (Num 55), popup_flightTime = Num 0,
       popup_link_signal_quality = Num 0, popup_sn = ''SN-A'' \<rparr>"

definition marker_A :: Marker where
  "marker_A =
     \<lparr> latlng = (Num 12.3, Num 45.6), icon = icon_A, popup = popup_A, popup_open = False,
       zIndexOffset = 1000 \<rparr>"

definition marker_old :: Marker where
  "marker_old =
     \<lparr> latlng = (Num 1, Num 2), icon = \<lparr> icon_status = False, icon_yaw = Num 90 \<rparr>,
       popup = popup_A \<lparr> popup_sn := ''SN-OLD'', popup_status := False \<rparr>,
       popup_open = True, zIndexOffset = 500 \<rparr>"

definition example_devices :: "Device list" where
  "example_devices = [device_A, device_C]"

definition example_markers :: "(string \<times> Marker) list" where
  "example_markers = [(''SN-OLD'', marker_old)]"

definition twin_devices :: "Device list" where
  "twin_devices = [device_A, device_A \<lparr> telemetry := Some telemetry_A2 \<rparr>]"

definition twin_marker :: Marker where
  "twin_marker = marker_A \<lparr> latlng := (Num 13, Num 45.6), popup := popup_A \<lparr> popup_lat := Num 13 \<rparr> \<rparr>"

definition pass1 :: effect_state where
  "pass1 =
     \<lparr> markersMap = [(''SN-A'', marker_A)],
       activeSns = {''SN-A''},
       ops = [NewMarker ''SN-A'' (Num 12.3, Num 45.6) icon_A 1000,
              BindPopup ''SN-A'' popup_A,
              AddTo ''SN-A'',
              RemoveMarker ''SN-OLD''] \<rparr>"

definition pass2 :: effect_state where
  "pass2 =
     \<lparr> markersMap = [(''SN-A'', marker_A)],
       activeSns = {''SN-A''},
       ops = [SetIcon ''SN-A'' icon_A,
              BindPopup ''SN-A'' popup_A,
              SetZIndexOffset ''SN-A'' 1000] \<rparr>"

declare decimal.simps [simp del]

lemmas example_defs =
  process_item_def member_strict_def process_host_def domainVal_def coalesce_def opt_member_def
  js_or_def host_A_def host_B_def host_C_def host_dock_def example_runtime_def
  isOnline_def modelName_def device_state_def resolve_position_def resolve_battery_def
  build_telemetry_def num_field_def digit_of_def digits_value_def Let_def

section \<open>The examples, evaluated\<close>

lemma host_A_kept: "process_item example_runtime (JObject [(''host'', host_A)]) = Inr (Some device_A)"
  by (simp add: example_defs device_A_def telemetry_A_def)

lemma host_B_kept: "process_item example_runtime (JObject [(''host'', host_B)]) = Inr (Some device_B)"
  by (simp add: example_defs device_B_def telemetry_B_def)

lemma host_C_kept: "process_item example_runtime (JObject [(''host'', host_C)]) = Inr (Some device_C)"
  by (simp add: example_defs device_C_def)

lemma host_Z_kept: "process_host example_runtime host_Z = Inr (Some device_Z)"
  by (simp add: example_defs host_Z_def device_Z_def telemetry_Z_def)

lemma host_dock_dropped: "process_item example_runtime (JObject [(''host'', host_dock)]) = Inr None"
  by (simp add: example_defs)

lemma host_dock_domain: "tested_domain example_runtime host_dock = Some (Num 3)"
  by (simp add: tested_domain_def domainVal_def coalesce_def host_dock_def)

lemma host_null_dock_domain: "domain_code example_runtime host_null_dock = Num 3"
  by (simp add: domain_code_def opt_member_def host_null_dock_def example_runtime_def
        digit_of_def digits_value_def)

lemma host_null_dock_tested: "tested_domain example_runtime host_null_dock = Some (Num 0)"
  by (simp add: tested_domain_def domainVal_def coalesce_def opt_member_def host_null_dock_def)

lemma host_null_dock_kept:
  "process_item example_runtime (JObject [(''host'', host_null_dock)]) = Inr (Some device_null_dock)"
  by (simp add: process_item_def member_strict_def process_host_def domainVal_def coalesce_def
        opt_member_def js_or_def host_null_dock_def device_null_dock_def isOnline_def
        modelName_def device_state_def resolve_position_def resolve_battery_def
        build_telemetry_def Let_def)

lemma no_host_skipped: "process_item example_runtime (JObject [(''children'', JArray [])]) = Inr None"
  by (simp add: example_defs)

lemma example_topology:
  "getProjectTopology example_runtime example_exchange =
     \<lparr> code = JNumber (Num 0), message = ''Success'', data = [device_A, device_B, device_C] \<rparr>"
  by (simp add: getProjectTopology_def example_exchange_def response_ok_def parse_topology_def
        example_body_def js_or_def
        host_A_kept host_B_kept host_C_kept host_dock_dropped no_host_skipped)

lemma no_drones_response:
  "getProjectTopology example_runtime (Responded 200 [] (Some body_no_drones)) =
     \<lparr> code = JNumber (Num 0), message = ''No drones detected'', data = [] \<rparr>"
  by (simp add: getProjectTopology_def response_ok_def parse_topology_def body_no_drones_def
        js_or_def host_dock_dropped)

lemma server_error_response:
  "getProjectTopology example_runtime server_error =
     \<lparr> code = JNumber (Num 500),
       message = ''Topology API Error: 500 - Internal Server Error'',
       data = [] \<rparr>"
  by (simp add: server_error_def getProjectTopology_def response_ok_def error_response_def
        decimal.simps)

lemma server_error_poll:
  "fetchDevices True 2000 (Resolved (Some (getProjectTopology example_runtime server_error)))
     state_A = state_A \<lparr> isLinkHealthy := Unhealthy \<rparr>"
  by (simp add: server_error_response fetchDevices_def fetchDevices_complete_def
        fetchDevices_issue_def apply_response_def)

lemma late_completions_last: "last_success late_completions = Some response_A"
  by (simp add: late_completions_def response_A_def response_B_def)

lemma unauthorized_with_list_response:
  "getProjectTopology example_runtime (Responded 200 [] (Some unauthorized_body_with_list)) =
     \<lparr> code = JNumber (Num 200401), message = ''Success'', data = [device_A] \<rparr>"
  by (simp add: getProjectTopology_def response_ok_def parse_topology_def
        unauthorized_body_with_list_def js_or_def host_A_kept)

lemma host_C_position: "resolve_position example_runtime (raw device_C) = (Num 0, Num 0)"
  by (simp add: device_C_def example_defs)

lemma host_C_offline: "\<not> isOnline (raw device_C)"
  by (simp add: device_C_def example_defs)

lemma host_A_online: "isOnline (raw device_A)"
  by (simp add: device_A_def example_defs)

lemma host_A_battery:
  "member (device_state (raw device_A)) ''battery'' =
     JObject [(''capacity_percent'', JNumber (Num 0)),
              (''batteries'', JArray [JObject [(''capacity_percent'', JNumber (Num 55))]])]"
  by (simp add: device_A_def host_A_def device_state_def js_or_def)

lemma host_B_battery:
  "member (device_state (raw device_B)) ''battery'' =
     JObject [(''capacity_percent'', JNumber (Num 40))]"
  by (simp add: device_B_def host_B_def device_state_def js_or_def)

lemma host_A_live:
  "member (device_state (raw device_A)) ''latitude'' = JNumber (Num 0)
   \<and> member (device_state (raw device_A)) ''longitude'' = JNumber (Num 0)
   \<and> member (raw device_A) ''device_offline_position'' =
       JObject [(''latitude'', JNumber (Num 12.3)), (''longitude'', JNumber (Num 45.6))]"
  by (simp add: device_A_def host_A_def device_state_def js_or_def)

lemma first_pass: "marker_effect True example_devices example_markers = Inr pass1"
  by (simp add: marker_effect_def example_devices_def example_markers_def pass1_def
        place_device_def create_marker_def sweep_def strict_ne_def createIcon_def
        popupContent_def zIndex_def device_A_def device_C_def telemetry_A_def marker_A_def
        icon_A_def popup_A_def Let_def)

lemma second_pass: "marker_effect True example_devices (markersMap pass1) = Inr pass2"
  by (simp add: marker_effect_def example_devices_def pass1_def pass2_def
        place_device_def update_marker_def sweep_def strict_ne_def createIcon_def
        popupContent_def zIndex_def device_A_def device_C_def telemetry_A_def marker_A_def
        icon_A_def popup_A_def Let_def)

text \<open>
  Two devices of one snapshot with the same serial: the first pass creates the marker
  and moves it, and the second pass moves it twice.
\<close>

lemma twin_first_pass:
  "marker_effect True twin_devices [] =
     Inr \<lparr> markersMap = [(''SN-A'', twin_marker)],
             activeSns = {''SN-A''},
             ops = [NewMarker ''SN-A'' (Num 12.3, Num 45.6) icon_A 1000,
                    BindPopup ''SN-A'' popup_A,
                    AddTo ''SN-A'',
                    SetLatLng ''SN-A'' (Num 13, Num 45.6),
                    SetIcon ''SN-A'' icon_A,
                    BindPopup ''SN-A'' (popup_A \<lparr> popup_lat := Num 13 \<rparr>),
                    SetZIndexOffset ''SN-A'' 1000] \<rparr>"
  by (simp add: marker_effect_def twin_devices_def twin_marker_def
        place_device_def create_marker_def update_marker_def sweep_def strict_ne_def
        createIcon_def popupContent_def zIndex_def device_A_def telemetry_A_def telemetry_A2_def
        marker_A_def icon_A_def popup_A_def Let_def)

lemma twin_second_pass:
  "marker_effect True twin_devices [(''SN-A'', twin_marker)] =
     Inr \<lparr> markersMap = [(''SN-A'', twin_marker)],
             activeSns = {''SN-A''},
             ops = [SetLatLng ''SN-A'' (Num 12.3, Num 45.6),
                    SetIcon ''SN-A'' icon_A,
                    BindPopup ''SN-A'' popup_A,
                    SetZIndexOffset ''SN-A'' 1000,
                    SetLatLng ''SN-A'' (Num 13, Num 45.6),
                    SetIcon ''SN-A'' icon_A,
                    BindPopup ''SN-A'' (popup_A \<lparr> popup_lat := Num 13 \<rparr>),
                    SetZIndexOffset ''SN-A'' 1000] \<rparr>"
  by (simp add: marker_effect_def twin_devices_def twin_marker_def
        place_device_def create_marker_def update_marker_def sweep_def strict_ne_def
        createIcon_def popupContent_def zIndex_def device_A_def telemetry_A_def telemetry_A2_def
        marker_A_def icon_A_def popup_A_def Let_def)

section \<open>The normalizer\<close>

text \<open>
  Every device of the output was pushed by the callback on its own \<open>raw\<close> record.
\<close>

lemma process_list_mem:
  "process_list rt items acc = Inr out \<Longrightarrow> dev \<in> set out \<Longrightarrow>
     dev \<in> set acc \<or> (\<exists>item \<in> set items. process_item rt item = Inr (Some dev))"
proof (induction items arbitrary: acc)
  case Nil
  then show ?case by simp
next
  case (Cons item items)
  show ?case
  proof (cases "process_item rt item")
    case (Inl e)
    with Cons.prems show ?thesis by simp
  next
    case (Inr r)
    show ?thesis
    proof (cases r)
      case None
      with Inr Cons.prems have "process_list rt items acc = Inr out" by simp
      from Cons.IH [OF this Cons.prems(2)] show ?thesis by auto
    next
      case (Some d')
      with Inr Cons.prems have "process_list rt items (acc @ [d']) = Inr out" by simp
      from Cons.IH [OF this Cons.prems(2)] Inr Some show ?thesis by auto
    qed
  qed
qed

lemma process_item_raw:
  "process_item rt item = Inr (Some dev) \<Longrightarrow> process_host rt (raw dev) = Inr (Some dev)"
  by (auto simp: process_item_def process_host_def member_strict_def Let_def
           split: sum.splits if_splits)

lemma kept_device:
  assumes "dev \<in> set (data (getProjectTopology rt x))"
  shows "process_host rt (raw dev) = Inr (Some dev)"
proof -
  from assms obtain items out where
    "process_list rt items [] = Inr out" "dev \<in> set out"
    by (auto simp: getProjectTopology_def caught_def error_response_def parse_topology_def Let_def
             split: http_exchange.splits if_splits sum.splits json.splits option.splits)
  from process_list_mem [OF this] obtain item where "process_item rt item = Inr (Some dev)"
    by auto
  then show ?thesis by (rule process_item_raw)
qed

lemma kept_telemetry:
  assumes "process_host rt d = Inr (Some dev)"
  shows "\<exists>b. resolve_battery (device_state d) = Inr b \<and>
             telemetry dev = build_telemetry rt (device_state d) (fst (resolve_position rt d))
                               (snd (resolve_position rt d)) b (isOnline d)"
  using assms
  by (auto simp: process_host_def Let_def split: sum.splits if_splits)

lemma resolve_position_spec: "resolve_position rt d = position_spec rt d"
  by (simp add: resolve_position_def position_spec_def num_field_def Let_def)

lemma resolve_battery_spec: "resolve_battery state = Inr b \<Longrightarrow> b = battery_spec state"
  by (auto simp: resolve_battery_def battery_spec_def member_strict_def coalesce_def Let_def
           split: if_splits json.splits list.splits sum.splits)

text \<open>
  What the filter of the code does: a host record whose tested number is not \<open>0\<close>, or
  on which the test throws, is the \<open>raw\<close> record of no device of the output.
\<close>

lemma tested_domain_filter:
  assumes "tested_domain rt d \<noteq> Some (Num 0)"
    and "dev \<in> set (data (getProjectTopology rt x))"
  shows "raw dev \<noteq> d"
proof
  assume "raw dev = d"
  with kept_device [OF assms(2)] have "process_host rt d = Inr (Some dev)" by simp
  with assms(1) show False
    by (auto simp: process_host_def tested_domain_def split: sum.splits if_splits)
qed

text \<open>
  The tested number is the domain code of the specification, or the test throws, or the
  tested number is not \<open>0\<close> either, on every record but one kind: no explicit domain,
  and a model sub-record whose domain field is \<open>null\<close>.
\<close>

lemma nullish_iff: "nullish v = (v = JUndefined \<or> v = JNull)"
  by (cases v) simp_all

lemma tested_domain_code:
  assumes "\<not> (nullish (member d ''domain'')
              \<and> opt_member (member d ''device_model'') ''domain'' = JNull)"
    and "domain_code rt d \<noteq> Num 0"
  shows "tested_domain rt d \<noteq> Some (Num 0)"
proof (cases "nullish (member d ''domain'')")
  case False
  with assms(2) show ?thesis
    by (simp add: tested_domain_def domainVal_def domain_code_def coalesce_def Let_def
          nullish_iff)
next
  case True
  with assms(1) have model: "opt_member (member d ''device_model'') ''domain'' \<noteq> JNull"
    by simp
  show ?thesis
  proof (cases "opt_member (member d ''device_model'') ''domain'' = JUndefined")
    case False
    with model True assms(2) show ?thesis
      by (simp add: tested_domain_def domainVal_def domain_code_def coalesce_def Let_def
            nullish_iff)
  next
    case undef: True
    show ?thesis
    proof (cases "member d ''device_model_key''")
      case (JString s)
      with True undef assms(2) show ?thesis
        by (auto simp: tested_domain_def domainVal_def domain_code_def coalesce_def Let_def
                 split: if_splits)
    qed (use True undef in \<open>simp_all add: tested_domain_def domainVal_def coalesce_def Let_def\<close>)
  qed
qed

lemma domain_filtering_except_null:
  assumes "\<not> (nullish (member d ''domain'')
              \<and> opt_member (member d ''device_model'') ''domain'' = JNull)"
    and "domain_code rt d \<noteq> Num 0"
    and "dev \<in> set (data (getProjectTopology rt x))"
  shows "raw dev \<noteq> d"
  by (rule tested_domain_filter [OF tested_domain_code [OF assms(1,2)] assms(3)])

text \<open>
  Claim C9 says that a host record whose domain code is not \<open>0\<close> never appears in the
  output. The code breaks it on a dock whose model sub-record has a \<open>null\<close> domain and
  whose model key is \<open>3-1-0\<close>: its domain code is \<open>3\<close>, the code tests \<open>Number(null)\<close>,
  which is \<open>0\<close>, never reads the model key, and puts the dock in the output as a drone.
\<close>

theorem null_model_domain_kept:
  "domain_code example_runtime host_null_dock = Num 3
   \<and> tested_domain example_runtime host_null_dock = Some (Num 0)
   \<and> getProjectTopology example_runtime (Responded 200 [] (Some body_null_dock)) =
       \<lparr> code = JNumber (Num 0), message = ''Success'', data = [device_null_dock] \<rparr>
   \<and> raw device_null_dock = host_null_dock"
  by (simp add: host_null_dock_domain host_null_dock_tested getProjectTopology_def response_ok_def
        parse_topology_def body_null_dock_def js_or_def host_null_dock_kept device_null_dock_def)

text \<open>
  Claim C5. A device of the output carries telemetry exactly when its resolved
  position has a non-zero coordinate or its host record is classified online (which
  is also its \<open>status\<close>).
\<close>

theorem telemetry_presence:
  assumes "dev \<in> set (data (getProjectTopology rt x))"
  shows "(telemetry dev \<noteq> None) =
           (fst (resolve_position rt (raw dev)) \<noteq> Num 0
            \<or> snd (resolve_position rt (raw dev)) \<noteq> Num 0
            \<or> isOnline (raw dev))
         \<and> status dev = isOnline (raw dev)"
proof -
  from kept_device [OF assms] have kept: "process_host rt (raw dev) = Inr (Some dev)" .
  from kept_telemetry [OF kept] have "(telemetry dev \<noteq> None) =
           (fst (resolve_position rt (raw dev)) \<noteq> Num 0
            \<or> snd (resolve_position rt (raw dev)) \<noteq> Num 0
            \<or> isOnline (raw dev))"
    by (auto simp: build_telemetry_def split: if_splits)
  moreover from kept have "status dev = isOnline (raw dev)"
    by (cases dev) (auto simp: process_host_def Let_def split: sum.splits if_splits)
  ultimately show ?thesis by simp
qed

theorem telemetry_presence_witness:
  "device_C \<in> set (data (getProjectTopology example_runtime example_exchange))
   \<and> telemetry device_C = None
   \<and> resolve_position example_runtime (raw device_C) = (Num 0, Num 0)
   \<and> \<not> isOnline (raw device_C)
   \<and> device_A \<in> set (data (getProjectTopology example_runtime example_exchange))
   \<and> telemetry device_A \<noteq> None
   \<and> isOnline (raw device_A)"
proof -
  have hC: "device_C \<in> set (data (getProjectTopology example_runtime example_exchange))"
    by (simp add: example_topology)
  have hA: "device_A \<in> set (data (getProjectTopology example_runtime example_exchange))"
    by (simp add: example_topology)
  note cC = telemetry_presence [OF hC]
  note cA = telemetry_presence [OF hA]
  from cC have tC: "telemetry device_C = None"
    by (simp add: host_C_position host_C_offline)
  from cA have tA: "telemetry device_A \<noteq> None"
    by (simp add: host_A_online)
  show ?thesis
    by (intro conjI hC tC host_C_position host_C_offline hA tA host_A_online)
qed

text \<open>
  Claim C7. The battery percent of a device of the output is the one that the
  specification's resolution gives on the device's state. The witness runs the two
  inputs of the specification: a direct \<open>0\<close> with a list starting at \<open>55\<close>, and a
  direct \<open>40\<close>.
\<close>

theorem battery_resolution:
  assumes "dev \<in> set (data (getProjectTopology rt x))"
    and "telemetry dev = Some t"
  shows "battery_percent t = battery_spec (device_state (raw dev))"
proof -
  from kept_device [OF assms(1)] have "process_host rt (raw dev) = Inr (Some dev)" .
  from kept_telemetry [OF this] obtain b where
    b: "resolve_battery (device_state (raw dev)) = Inr b"
    and t: "telemetry dev = build_telemetry rt (device_state (raw dev))
              (fst (resolve_position rt (raw dev))) (snd (resolve_position rt (raw dev)))
              b (isOnline (raw dev))"
    by blast
  from t assms(2) have "battery_percent t = b"
    by (auto simp: build_telemetry_def split: if_splits)
  with resolve_battery_spec [OF b] show ?thesis by simp
qed

theorem battery_resolution_witness:
  "device_A \<in> set (data (getProjectTopology example_runtime example_exchange))
   \<and> telemetry device_A = Some telemetry_A
   \<and> member (device_state (raw device_A)) ''battery'' =
       JObject [(''capacity_percent'', JNumber (Num 0)),
                (''batteries'', JArray [JObject [(''capacity_percent'', JNumber (Num 55))]])]
   \<and> battery_spec (device_state (raw device_A)) = JNumber (Num 55)
   \<and> battery_percent telemetry_A = JNumber (Num 55)
   \<and> device_B \<in> set (data (getProjectTopology example_runtime example_exchange))
   \<and> telemetry device_B = Some telemetry_B
   \<and> member (device_state (raw device_B)) ''battery'' =
       JObject [(''capacity_percent'', JNumber (Num 40))]
   \<and> battery_spec (device_state (raw device_B)) = JNumber (Num 40)
   \<and> battery_percent telemetry_B = JNumber (Num 40)"
proof -
  have hA: "device_A \<in> set (data (getProjectTopology example_runtime example_exchange))"
    by (simp add: example_topology)
  have tA: "telemetry device_A = Some telemetry_A" by (simp add: device_A_def)
  have hB: "device_B \<in> set (data (getProjectTopology example_runtime example_exchange))"
    by (simp add: example_topology)
  have tB: "telemetry device_B = Some telemetry_B" by (simp add: device_B_def)
  from battery_resolution [OF hA tA]
  have cA: "battery_spec (device_state (raw device_A)) = JNumber (Num 55)"
    by (simp add: telemetry_A_def)
  from battery_resolution [OF hB tB]
  have cB: "battery_spec (device_state (raw device_B)) = JNumber (Num 40)"
    by (simp add: telemetry_B_def)
  have vA: "battery_percent telemetry_A = JNumber (Num 55)" by (simp add: telemetry_A_def)
  have vB: "battery_percent telemetry_B = JNumber (Num 40)" by (simp add: telemetry_B_def)
  show ?thesis by (intro conjI hA tA host_A_battery cA vA hB tB host_B_battery cB vB)
qed

text \<open>
  Claim C8. The position of a device of the output is the one that the specification's
  resolution gives on its host record; a device without telemetry has the resolved
  position \<open>(0, 0)\<close>. The witness runs the input of the specification: live \<open>(0, 0)\<close>
  with the offline position \<open>(12.3, 45.6)\<close>.
\<close>

theorem position_resolution:
  assumes "dev \<in> set (data (getProjectTopology rt x))"
  shows "case telemetry dev of
           Some t \<Rightarrow> (latitude t, longitude t) = position_spec rt (raw dev)
         | None \<Rightarrow> position_spec rt (raw dev) = (Num 0, Num 0)"
proof -
  from kept_device [OF assms] have "process_host rt (raw dev) = Inr (Some dev)" .
  from kept_telemetry [OF this] show ?thesis
    by (auto simp: build_telemetry_def resolve_position_spec [symmetric] prod_eq_iff
             split: option.splits if_splits)
qed

theorem position_resolution_witness:
  "device_A \<in> set (data (getProjectTopology example_runtime example_exchange))
   \<and> telemetry device_A = Some telemetry_A
   \<and> (member (device_state (raw device_A)) ''latitude'' = JNumber (Num 0)
      \<and> member (device_state (raw device_A)) ''longitude'' = JNumber (Num 0)
      \<and> member (raw device_A) ''device_offline_position'' =
          JObject [(''latitude'', JNumber (Num 12.3)), (''longitude'', JNumber (Num 45.6))])
   \<and> position_spec example_runtime (raw device_A) = (Num 12.3, Num 45.6)
   \<and> (latitude telemetry_A, longitude telemetry_A) = (Num 12.3, Num 45.6)"
proof -
  have hA: "device_A \<in> set (data (getProjectTopology example_runtime example_exchange))"
    by (simp add: example_topology)
  have tA: "telemetry device_A = Some telemetry_A" by (simp add: device_A_def)
  have v: "(latitude telemetry_A, longitude telemetry_A) = (Num 12.3, Num 45.6)"
    by (simp add: telemetry_A_def)
  from position_resolution [OF hA]
  have "(latitude telemetry_A, longitude telemetry_A) = position_spec example_runtime (raw device_A)"
    by (simp add: tA)
  with v have c: "position_spec example_runtime (raw device_A) = (Num 12.3, Num 45.6)"
    by simp
  show ?thesis by (intro conjI hA tA host_A_live c v)
qed

section \<open>The poller\<close>

lemma complete_devices:
  "devices (fetchDevices_complete isBackground now r st) =
     (case r of
        Resolved (Some response) \<Rightarrow>
          if code response = JNumber (Num 0) then data response else devices st
      | _ \<Rightarrow> devices st)"
  by (simp add: fetchDevices_complete_def apply_response_def Let_def
           split: awaited.splits option.splits)

text \<open>
  Claim C3. A poll cycle that does not end healthy leaves the device collection as it
  was: the state after it is the state before it with the link health set (and the
  loading flag cleared by a foreground fetch).
\<close>

theorem failed_poll_keeps_snapshot:
  assumes "isLinkHealthy (fetchDevices isBackground now r st) \<noteq> Healthy"
  shows "devices (fetchDevices isBackground now r st) = devices st
         \<and> fetchDevices isBackground now r st =
             st\<lparr> isLinkHealthy := isLinkHealthy (fetchDevices isBackground now r st),
                 isLoadingDevices := (isBackground \<and> isLoadingDevices st) \<rparr>"
  using assms
  by (cases st)
     (auto simp: fetchDevices_def fetchDevices_complete_def fetchDevices_issue_def
                 apply_response_def Let_def
           split: awaited.splits option.splits if_splits)

theorem failed_poll_keeps_snapshot_witness:
  "isLinkHealthy (fetchDevices True 2000
      (Resolved (Some (getProjectTopology example_runtime server_error))) state_A) \<noteq> Healthy
   \<and> devices (fetchDevices True 2000
      (Resolved (Some (getProjectTopology example_runtime server_error))) state_A)
       = devices state_A
   \<and> devices state_A = [device_A]"
proof -
  have h: "isLinkHealthy (fetchDevices True 2000
      (Resolved (Some (getProjectTopology example_runtime server_error))) state_A) \<noteq> Healthy"
    by (simp add: server_error_poll)
  from failed_poll_keeps_snapshot [OF h]
  have c: "devices (fetchDevices True 2000
      (Resolved (Some (getProjectTopology example_runtime server_error))) state_A)
       = devices state_A"
    by (rule conjunct1)
  have s: "devices state_A = [device_A]" by (simp add: state_A_def)
  show ?thesis by (intro conjI h c s)
qed

text \<open>
  The exchanges that the claim lists end with a code other than \<open>0\<close>, hence not healthy:
  a rejected fetch, a status outside 200..299, a body without the expected structure,
  a body with a code of its own.
\<close>

lemma error_response_code: "st \<noteq> 0 \<Longrightarrow> code (error_response st errText body) \<noteq> JNumber (Num 0)"
  by (auto simp: error_response_def member_strict_def split: option.splits sum.splits if_splits)

lemma parse_topology_code:
  "parse_topology rt (Some body) = Inr response \<Longrightarrow>
     code response = js_or (member body ''code'') (JNumber (Num 0))"
  by (auto simp: parse_topology_def Let_def split: if_splits json.splits sum.splits)

lemma failed_exchange_code:
  assumes "x = FetchRejected
           \<or> (\<exists>st errText body. x = Responded st errText body \<and> \<not> response_ok st \<and> st \<noteq> 0)
           \<or> (\<exists>st errText body e. x = Responded st errText body \<and> response_ok st
                \<and> parse_topology rt body = Inl e)
           \<or> (\<exists>st errText body. x = Responded st errText (Some body) \<and> response_ok st
                \<and> truthy (member body ''code'') \<and> member body ''code'' \<noteq> JNumber (Num 0))"
  shows "code (getProjectTopology rt x) \<noteq> JNumber (Num 0)"
proof -
  consider (rejected) "x = FetchRejected"
    | (status) st errText body where "x = Responded st errText body" "\<not> response_ok st" "st \<noteq> 0"
    | (malformed) st errText body e where "x = Responded st errText body" "response_ok st"
        "parse_topology rt body = Inl e"
    | (embedded) st errText body where "x = Responded st errText (Some body)" "response_ok st"
        "truthy (member body ''code'')" "member body ''code'' \<noteq> JNumber (Num 0)"
    using assms by blast
  then show ?thesis
  proof cases
    case rejected
    then show ?thesis by (simp add: getProjectTopology_def caught_def)
  next
    case status
    then show ?thesis by (simp add: getProjectTopology_def error_response_code)
  next
    case malformed
    then show ?thesis by (simp add: getProjectTopology_def caught_def)
  next
    case embedded
    show ?thesis
    proof (cases "parse_topology rt (Some body)")
      case (Inl e)
      with embedded show ?thesis by (simp add: getProjectTopology_def caught_def)
    next
      case (Inr response)
      from parse_topology_code [OF Inr] embedded Inr show ?thesis
        by (simp add: getProjectTopology_def js_or_def)
    qed
  qed
qed

lemma nonzero_code_not_healthy:
  "code response \<noteq> JNumber (Num 0) \<Longrightarrow>
     isLinkHealthy (fetchDevices isBackground now (Resolved (Some response)) st) \<noteq> Healthy"
  by (simp add: fetchDevices_def fetchDevices_complete_def apply_response_def Let_def)

text \<open>
  A response whose message contains \<open>401\<close> never has code \<open>0\<close>, the status \<open>0\<close> (which
  no answered request has) apart: the messages of a parsed topology are fixed texts.
\<close>

lemma auth_signal_code_nonzero:
  assumes "\<And>errText body. x \<noteq> Responded 0 errText body"
    and "str_includes (message (getProjectTopology rt x)) ''401''"
  shows "code (getProjectTopology rt x) \<noteq> JNumber (Num 0)"
proof (cases x)
  case FetchRejected
  then show ?thesis by (simp add: getProjectTopology_def caught_def)
next
  case (Responded st errText body)
  with assms(1) have st: "st \<noteq> 0" by auto
  show ?thesis
  proof (cases "response_ok st")
    case False
    with Responded st show ?thesis by (simp add: getProjectTopology_def error_response_code)
  next
    case True
    show ?thesis
    proof (cases "parse_topology rt body")
      case (Inl e)
      with Responded True show ?thesis by (simp add: getProjectTopology_def caught_def)
    next
      case (Inr response)
      then have "message response = ''No drones detected'' \<or> message response = ''Success''"
        by (auto simp: parse_topology_def Let_def split: if_splits json.splits sum.splits)
      then have "\<not> str_includes (message response) ''401''" by auto
      with assms(2) Responded True Inr show ?thesis by (simp add: getProjectTopology_def)
    qed
  qed
qed

text \<open>
  What \<open>fetchDevices\<close> does with the signals it tests: a response whose code is the auth
  error code, or whose code is not \<open>0\<close> and whose message contains \<open>401\<close>, makes the link
  unauthorized and leaves the device collection as it was, whatever data it carries.
\<close>

lemma auth_signal_in_response:
  assumes "code response = JNumber (Num 200401)
           \<or> (code response \<noteq> JNumber (Num 0) \<and> str_includes (message response) ''401'')"
  shows "isLinkHealthy (fetchDevices isBackground now (Resolved (Some response)) st) = Unauthorized
         \<and> devices (fetchDevices isBackground now (Resolved (Some response)) st) = devices st"
  using assms
  by (auto simp: fetchDevices_def fetchDevices_complete_def fetchDevices_issue_def
                 apply_response_def Let_def)

text \<open>
  So does a body of status 200 with the auth error code and a device list (the code of
  the body is passed on), and a refusal of status 401 (the status is in the message).
\<close>

lemma unauthorized_with_list_poll:
  "isLinkHealthy (fetchDevices True 2000
      (Resolved (Some (getProjectTopology example_runtime
                        (Responded 200 [] (Some unauthorized_body_with_list))))) state_A)
     = Unauthorized
   \<and> devices (fetchDevices True 2000
      (Resolved (Some (getProjectTopology example_runtime
                        (Responded 200 [] (Some unauthorized_body_with_list))))) state_A)
     = devices state_A"
  by (rule auth_signal_in_response) (simp add: unauthorized_with_list_response)

lemma status_401_poll:
  "isLinkHealthy (fetchDevices True 2000
      (Resolved (Some (getProjectTopology rt (Responded 401 errText body)))) st) = Unauthorized"
proof -
  have "str_includes (message (getProjectTopology rt (Responded 401 errText body))) ''401''"
    by (simp add: getProjectTopology_def response_ok_def error_response_def decimal.simps)
  moreover have "code (getProjectTopology rt (Responded 401 errText body)) \<noteq> JNumber (Num 0)"
    by (simp add: getProjectTopology_def response_ok_def error_response_code)
  ultimately show ?thesis
    using auth_signal_in_response
            [of "getProjectTopology rt (Responded 401 errText body)" True 2000 st]
    by simp
qed

text \<open>
  Claim C4 says that a poll response with an embedded auth-failure signal makes the link
  unauthorized, never healthy and never unhealthy, also when the exchange succeeded with
  status 200. The code breaks it when the upstream answers with status 200 and a body
  whose code is the auth error code and which has no device list:
  \<open>getProjectTopology\<close> throws on the structure before it reads the code of the body and
  reports code \<open>-1\<close> with the text of its own error, and \<open>fetchDevices\<close>, which tests for
  the auth error code, finds none and sets the link unhealthy.
\<close>

theorem auth_code_lost_without_list:
  "embedded_auth_signal example_runtime unauthorized_body
   \<and> getProjectTopology example_runtime (Responded 200 [] (Some unauthorized_body)) =
       \<lparr> code = JNumber (Num (- 1)),
         message = ''Error: Invalid topology response structure'',
         data = [] \<rparr>
   \<and> isLinkHealthy (fetchDevices True 2000
        (Resolved (Some (getProjectTopology example_runtime
                          (Responded 200 [] (Some unauthorized_body))))) initial_state)
     = Unhealthy"
  by (simp add: embedded_auth_signal_def unauthorized_body_def getProjectTopology_def
        response_ok_def parse_topology_def caught_def error_string_def
        fetchDevices_def fetchDevices_complete_def fetchDevices_issue_def apply_response_def
        initial_state_def)

text \<open>
  The same loss on a body of status 200 with a device list: its message, which carries
  the marker, is replaced by a fixed text, and the link is unhealthy.
\<close>

lemma auth_marker_lost_in_message:
  "embedded_auth_signal example_runtime marker_in_message_body
   \<and> getProjectTopology example_runtime (Responded 200 [] (Some marker_in_message_body)) =
       \<lparr> code = JNumber (Num 5), message = ''No drones detected'', data = [] \<rparr>
   \<and> isLinkHealthy (fetchDevices True 2000
        (Resolved (Some (getProjectTopology example_runtime
                          (Responded 200 [] (Some marker_in_message_body))))) initial_state)
     = Unhealthy"
  by (simp add: embedded_auth_signal_def marker_in_message_body_def getProjectTopology_def
        response_ok_def parse_topology_def js_or_def
        fetchDevices_def fetchDevices_complete_def fetchDevices_issue_def apply_response_def
        initial_state_def)

text \<open>
  Claim C2, as amended. Completions are applied in the order in which they arrive,
  whatever the order of issue: after any series of completions the device collection is
  the data of the last one that carried code \<open>0\<close>, and is unchanged when there is none.
\<close>

theorem last_completed_wins:
  "devices (run_completions cs st) =
     (case last_success cs of None \<Rightarrow> devices st | Some response \<Rightarrow> data response)"
proof (induction cs arbitrary: st)
  case Nil
  show ?case by simp
next
  case (Cons c cs)
  obtain issued isBackground now r where c: "c = (issued, isBackground, now, r)"
    by (cases c) auto
  show ?case
    by (simp add: c Cons.IH complete_devices split: option.splits awaited.splits)
qed

theorem last_completed_wins_witness:
  "last_success late_completions = Some response_A
   \<and> devices (run_completions late_completions initial_state) = data response_A"
proof -
  have c: "devices (run_completions late_completions initial_state) =
             (case last_success late_completions of
                None \<Rightarrow> devices initial_state
              | Some response \<Rightarrow> data response)"
    by (rule last_completed_wins)
  then have "devices (run_completions late_completions initial_state) = data response_A"
    by (simp add: late_completions_last)
  then show ?thesis by (intro conjI late_completions_last)
qed

text \<open>
  Claim C2 as stated fails: fetch 1 is issued first and completes after fetch 2; the
  device collection then holds the data of fetch 1.
\<close>

theorem most_recent_wins_counterexample:
  "late_completions = [(2, True, 2000, Resolved (Some response_B)),
                       (1, True, 2001, Resolved (Some response_A))]
   \<and> devices (run_completions late_completions initial_state) \<noteq> data response_B"
  by (simp add: late_completions_def complete_devices response_A_def response_B_def
        device_A_def device_B_def)

section \<open>The marker reconciler\<close>

lemma update_marker_Inr:
  "update_marker device t marker = Inr (marker', calls) \<Longrightarrow>
     marker' = rendered_marker device t (popup_open marker)"
  by (cases marker)
     (auto simp: update_marker_def rendered_marker_def strict_ne_def Let_def prod_eq_iff
           split: if_splits)

lemma place_device_eq:
  "place_device device st =
     (if renderable device \<and> nan_position device
      then Inl (InvalidLatLng, st\<lparr>activeSns := insert (device_sn device) (activeSns st)\<rparr>)
      else Inr \<lparr> markersMap = table_step device (markersMap st),
                 activeSns = (if renderable device then insert (device_sn device) (activeSns st)
                              else activeSns st),
                 ops = ops st @ step_calls device (markersMap st) \<rparr>)"
proof (cases "telemetry device")
  case None
  then show ?thesis
    by (simp add: place_device_def renderable_def nan_position_def table_step_def step_calls_def)
next
  case (Some t)
  show ?thesis
  proof (cases "renderable device")
    case False
    with Some show ?thesis
      by (simp add: place_device_def renderable_def table_step_def step_calls_def)
  next
    case True
    show ?thesis
    proof (cases "map_of (markersMap st) (device_sn device)")
      case None
      with Some True show ?thesis
        by (cases st)
           (auto simp: place_device_def renderable_def nan_position_def table_step_def
                       step_calls_def create_marker_def rendered_marker_def open_of_def Let_def)
    next
      case (Some marker)
      with \<open>telemetry device = Some t\<close> True show ?thesis
        by (cases st; cases marker)
           (auto simp: place_device_def renderable_def nan_position_def table_step_def
                       step_calls_def update_marker_def rendered_marker_def open_of_def
                       strict_ne_def Let_def prod_eq_iff)
    qed
  qed
qed

lemma place_devices_Inr:
  "place_devices devs st = Inr st' \<Longrightarrow>
     st' = \<lparr> markersMap = table_run devs (markersMap st),
             activeSns = activeSns st \<union> rendered_sns devs,
             ops = ops st @ run_calls devs (markersMap st) \<rparr>
     \<and> (\<forall>d \<in> set devs. renderable d \<longrightarrow> \<not> nan_position d)"
proof (induction devs arbitrary: st)
  case Nil
  then show ?case by (cases st) (simp add: rendered_sns_def)
next
  case (Cons device rest)
  from Cons.prems have ok: "\<not> (renderable device \<and> nan_position device)"
    by (auto simp: place_device_eq)
  let ?st1 = "\<lparr> markersMap = table_step device (markersMap st),
                 activeSns = (if renderable device then insert (device_sn device) (activeSns st)
                              else activeSns st),
                 ops = ops st @ step_calls device (markersMap st) \<rparr>"
  from ok have step: "place_device device st = Inr ?st1"
    by (simp only: place_device_eq if_False)
  with Cons.prems have "place_devices rest ?st1 = Inr st'" by simp
  from Cons.IH [OF this] ok show ?case
    by (auto simp: rendered_sns_def)
qed

lemma place_devices_total:
  "\<forall>d \<in> set devs. renderable d \<longrightarrow> \<not> nan_position d \<Longrightarrow> \<exists>st'. place_devices devs st = Inr st'"
proof (induction devs arbitrary: st)
  case Nil
  show ?case by simp
next
  case (Cons device rest)
  then have ok: "\<not> (renderable device \<and> nan_position device)" by simp
  then obtain st1 where step: "place_device device st = Inr st1"
    by (auto simp: place_device_eq)
  from Cons.IH [of st1] Cons.prems obtain st' where "place_devices rest st1 = Inr st'" by auto
  with step show ?case by simp
qed

lemma keys_table_step:
  "fst ` set (table_step device markers) =
     fst ` set markers \<union> (if renderable device then {device_sn device} else {})"
  by (auto simp: table_step_def renderable_def dom_update split: option.splits)

lemma keys_table_run:
  "fst ` set (table_run devs markers) = fst ` set markers \<union> rendered_sns devs"
  by (induction devs arbitrary: markers) (auto simp: keys_table_step rendered_sns_def)

lemma marker_effect_Inr:
  assumes "marker_effect True devs markers = Inr st'"
  shows "markersMap st' = AList.restrict (rendered_sns devs) (table_run devs markers)"
    and "ops st' = run_calls devs markers
                   @ map RemoveMarker [sn \<leftarrow> map fst (table_run devs markers).
                                         sn \<notin> rendered_sns devs]"
    and "activeSns st' = rendered_sns devs"
    and "\<forall>d \<in> set devs. renderable d \<longrightarrow> \<not> nan_position d"
proof -
  from assms obtain st where
    run: "place_devices devs \<lparr> markersMap = markers, activeSns = {}, ops = [] \<rparr> = Inr st"
    and st': "st' = sweep st"
    by (auto simp: marker_effect_def split: sum.splits)
  from place_devices_Inr [OF run]
  have st: "st = \<lparr> markersMap = table_run devs markers, activeSns = rendered_sns devs,
                   ops = run_calls devs markers \<rparr>"
    and nan: "\<forall>d \<in> set devs. renderable d \<longrightarrow> \<not> nan_position d"
    by simp_all
  show "markersMap st' = AList.restrict (rendered_sns devs) (table_run devs markers)"
    by (simp add: st' st sweep_def)
  show "ops st' = run_calls devs markers
                   @ map RemoveMarker [sn \<leftarrow> map fst (table_run devs markers).
                                         sn \<notin> rendered_sns devs]"
    by (simp add: st' st sweep_def)
  show "activeSns st' = rendered_sns devs"
    by (simp add: st' st sweep_def)
  show "\<forall>d \<in> set devs. renderable d \<longrightarrow> \<not> nan_position d" by (rule nan)
qed

lemma marker_effect_total:
  assumes "\<forall>d \<in> set devs. renderable d \<longrightarrow> \<not> nan_position d"
  shows "\<exists>st'. marker_effect mapReady devs markers = Inr st'"
proof -
  from place_devices_total [OF assms]
  obtain st where "place_devices devs \<lparr> markersMap = markers, activeSns = {}, ops = [] \<rparr> = Inr st"
    by blast
  then show ?thesis by (simp add: marker_effect_def)
qed

text \<open>
  Claim C1, as amended. After a pass that completes on a ready map, the marker table
  holds a marker for a serial exactly when a device of the new snapshot with that
  serial has telemetry with a non-zero coordinate; every serial tracked before and
  without such a device is deleted from the table and its marker removed from the map
  in the same pass.
\<close>

theorem marker_table_after_reconcile:
  assumes "marker_effect True devs markers = Inr st'"
  shows "(\<forall>sn. (sn \<in> fst ` set (markersMap st')) =
               (\<exists>d \<in> set devs. device_sn d = sn \<and> renderable d))
         \<and> (\<forall>sn \<in> fst ` set markers.
               \<not> (\<exists>d \<in> set devs. device_sn d = sn \<and> renderable d) \<longrightarrow>
               sn \<notin> fst ` set (markersMap st') \<and> RemoveMarker sn \<in> set (ops st'))"
proof -
  have R: "\<And>sn. (sn \<in> rendered_sns devs) = (\<exists>d \<in> set devs. device_sn d = sn \<and> renderable d)"
    by (auto simp: rendered_sns_def)
  have keys: "fst ` set (markersMap st') = rendered_sns devs"
    by (auto simp: marker_effect_Inr(1) [OF assms] keys_table_run)
  have removed: "RemoveMarker sn \<in> set (ops st')"
    if "sn \<in> fst ` set markers" "sn \<notin> rendered_sns devs" for sn
  proof -
    from that(1) have "sn \<in> fst ` set (table_run devs markers)"
      by (simp add: keys_table_run)
    with that(2) show ?thesis
      by (simp add: marker_effect_Inr(2) [OF assms])
  qed
  from keys removed show ?thesis
    by (simp add: R [symmetric])
qed

theorem marker_table_after_reconcile_witness:
  "marker_effect True example_devices example_markers = Inr pass1
   \<and> (''SN-A'' \<in> fst ` set (markersMap pass1)) =
       (\<exists>d \<in> set example_devices. device_sn d = ''SN-A'' \<and> renderable d)
   \<and> ''SN-A'' \<in> fst ` set (markersMap pass1)
   \<and> ''SN-OLD'' \<in> fst ` set example_markers
   \<and> \<not> (\<exists>d \<in> set example_devices. device_sn d = ''SN-OLD'' \<and> renderable d)
   \<and> ''SN-OLD'' \<notin> fst ` set (markersMap pass1)
   \<and> RemoveMarker ''SN-OLD'' \<in> set (ops pass1)"
proof -
  note c = marker_table_after_reconcile [OF first_pass]
  from c have a: "(''SN-A'' \<in> fst ` set (markersMap pass1)) =
                    (\<exists>d \<in> set example_devices. device_sn d = ''SN-A'' \<and> renderable d)"
    by blast
  have a': "''SN-A'' \<in> fst ` set (markersMap pass1)" by (simp add: pass1_def)
  have old: "''SN-OLD'' \<in> fst ` set example_markers" by (simp add: example_markers_def)
  have gone: "\<not> (\<exists>d \<in> set example_devices. device_sn d = ''SN-OLD'' \<and> renderable d)"
    by (simp add: example_devices_def device_A_def device_C_def)
  from c old gone have r: "''SN-OLD'' \<notin> fst ` set (markersMap pass1)
                           \<and> RemoveMarker ''SN-OLD'' \<in> set (ops pass1)"
    by blast
  show ?thesis by (intro conjI first_pass a a' old gone r [THEN conjunct1] r [THEN conjunct2])
qed

text \<open>
  Claim C1 as stated fails: an online device at position \<open>(0, 0)\<close> has telemetry and
  gets no marker.
\<close>

theorem marker_table_counterexample:
  "process_host example_runtime host_Z = Inr (Some device_Z)
   \<and> telemetry device_Z = Some telemetry_Z
   \<and> marker_effect True [device_Z] [] = Inr \<lparr> markersMap = [], activeSns = {}, ops = [] \<rparr>"
  by (simp add: host_Z_kept marker_effect_def place_device_def sweep_def strict_ne_def
        device_Z_def telemetry_Z_def)

lemma open_of_table_step: "open_of (table_step device markers) sn = open_of markers sn"
  by (auto simp: table_step_def open_of_def rendered_marker_def update_conv'
           split: option.splits)

lemma map_of_table_step:
  "map_of (table_step device markers) sn =
     (case telemetry device of
        Some t \<Rightarrow> if renderable device \<and> device_sn device = sn
                  then Some (rendered_marker device t (open_of markers sn))
                  else map_of markers sn
      | None \<Rightarrow> map_of markers sn)"
  by (auto simp: table_step_def update_conv' split: option.splits)

lemma map_of_table_run_untouched:
  "sn \<notin> rendered_sns devs \<Longrightarrow> map_of (table_run devs markers) sn = map_of markers sn"
proof (induction devs arbitrary: markers)
  case Nil
  show ?case by simp
next
  case (Cons device rest)
  from Cons.prems have rest: "sn \<notin> rendered_sns rest"
    and here: "\<not> (renderable device \<and> device_sn device = sn)"
    by (auto simp: rendered_sns_def)
  from here have "map_of (table_step device markers) sn = map_of markers sn"
    by (auto simp: map_of_table_step split: option.splits)
  with Cons.IH [OF rest, of "table_step device markers"] show ?case by simp
qed

lemma map_of_table_run_cong:
  "sn \<in> rendered_sns devs \<Longrightarrow> open_of ms sn = open_of ms' sn \<Longrightarrow>
     map_of (table_run devs ms) sn = map_of (table_run devs ms') sn"
proof (induction devs arbitrary: ms ms')
  case Nil
  then show ?case by (simp add: rendered_sns_def)
next
  case (Cons device rest)
  show ?case
  proof (cases "sn \<in> rendered_sns rest")
    case True
    have "open_of (table_step device ms) sn = open_of (table_step device ms') sn"
      by (simp add: open_of_table_step Cons.prems(2))
    from Cons.IH [OF True this] show ?thesis by simp
  next
    case False
    with Cons.prems(1) have here: "renderable device" "device_sn device = sn"
      by (auto simp: rendered_sns_def)
    then obtain t where t: "telemetry device = Some t"
      by (auto simp: renderable_def split: option.splits)
    have "map_of (table_step device ms) sn = map_of (table_step device ms') sn"
      by (simp add: map_of_table_step t here Cons.prems(2))
    then show ?thesis
      by (simp add: map_of_table_run_untouched [OF False])
  qed
qed

lemma open_of_table_run: "open_of (table_run devs markers) sn = open_of markers sn"
  by (induction devs arbitrary: markers) (simp_all add: open_of_table_step)

lemma keys_order_table_step:
  "(renderable device \<longrightarrow> device_sn device \<in> fst ` set markers) \<Longrightarrow>
     map fst (table_step device markers) = map fst markers"
  by (auto simp: table_step_def update_keys renderable_def split: option.splits)

lemma keys_order_table_run:
  "rendered_sns devs \<subseteq> fst ` set markers \<Longrightarrow> map fst (table_run devs markers) = map fst markers"
proof (induction devs arbitrary: markers)
  case Nil
  show ?case by simp
next
  case (Cons device rest)
  from Cons.prems have here: "renderable device \<longrightarrow> device_sn device \<in> fst ` set markers"
    and rest: "rendered_sns rest \<subseteq> fst ` set markers"
    by (auto simp: rendered_sns_def)
  have keys: "map fst (table_step device markers) = map fst markers"
    by (rule keys_order_table_step [OF here])
  then have "fst ` set (table_step device markers) = fst ` set markers"
    by (metis list.set_map)
  with rest have "rendered_sns rest \<subseteq> fst ` set (table_step device markers)" by simp
  from Cons.IH [OF this] keys show ?case by simp
qed

lemma distinct_table_step:
  "distinct (map fst markers) \<Longrightarrow> distinct (map fst (table_step device markers))"
  by (auto simp: table_step_def distinct_update split: option.splits)

lemma distinct_table_run:
  "distinct (map fst markers) \<Longrightarrow> distinct (map fst (table_run devs markers))"
  by (induction devs arbitrary: markers) (simp_all add: distinct_table_step)

lemma alist_eqI:
  "map fst xs = map fst ys \<Longrightarrow> distinct (map fst xs) \<Longrightarrow>
     (\<And>k. k \<in> fst ` set xs \<Longrightarrow> map_of xs k = map_of ys k) \<Longrightarrow> xs = ys"
proof (induction xs arbitrary: ys)
  case Nil
  then show ?case by simp
next
  case (Cons x xs)
  from Cons.prems(1) obtain y ys' where ys: "ys = y # ys'" "fst x = fst y" "map fst xs = map fst ys'"
    by (cases ys) auto
  from Cons.prems(3) [of "fst x"] ys have "snd x = snd y" by simp
  with ys have xy: "x = y" by (simp add: prod_eq_iff)
  have "xs = ys'"
  proof (rule Cons.IH)
    show "map fst xs = map fst ys'" by (rule ys(3))
    show "distinct (map fst xs)" using Cons.prems(2) by simp
    fix k assume k: "k \<in> fst ` set xs"
    with Cons.prems(2) have "k \<noteq> fst x" by (auto simp: image_iff)
    with Cons.prems(3) [of k] k ys show "map_of xs k = map_of ys' k" by auto
  qed
  with xy ys show ?case by simp
qed

lemma table_fixpoint:
  assumes "distinct (map fst markers)"
  shows "table_run devs (AList.restrict (rendered_sns devs) (table_run devs markers))
           = AList.restrict (rendered_sns devs) (table_run devs markers)"
    (is "table_run devs ?ms1 = ?ms1")
proof (rule alist_eqI)
  have keys1: "fst ` set ?ms1 = rendered_sns devs"
    by (auto simp: keys_table_run)
  then show "map fst (table_run devs ?ms1) = map fst ?ms1"
    by (intro keys_order_table_run) simp
  have "distinct (map fst ?ms1)"
    by (intro distinct_restr distinct_table_run assms)
  then show "distinct (map fst (table_run devs ?ms1))"
    by (rule distinct_table_run)
  fix k assume "k \<in> fst ` set (table_run devs ?ms1)"
  then have k: "k \<in> rendered_sns devs"
    by (simp add: keys_table_run keys1)
  then have same: "map_of ?ms1 k = map_of (table_run devs markers) k" by simp
  then have "open_of ?ms1 k = open_of markers k"
    by (simp add: open_of_def open_of_table_run [unfolded open_of_def])
  from map_of_table_run_cong [OF k this] same
  show "map_of (table_run devs ?ms1) k = map_of ?ms1 k" by simp
qed

lemma step_calls_existing:
  "(renderable device \<longrightarrow> device_sn device \<in> fst ` set markers) \<Longrightarrow>
     \<forall>call \<in> set (step_calls device markers). is_update call"
proof -
  assume a: "renderable device \<longrightarrow> device_sn device \<in> fst ` set markers"
  show ?thesis
  proof (cases "renderable device")
    case False
    then show ?thesis by (simp add: step_calls_def split: option.splits)
  next
    case True
    with a have "map_of markers (device_sn device) \<noteq> None"
      by (simp add: map_of_eq_None_iff)
    then show ?thesis
      by (auto simp: step_calls_def split: option.splits)
  qed
qed

lemma run_calls_existing:
  "rendered_sns devs \<subseteq> fst ` set markers \<Longrightarrow>
     \<forall>call \<in> set (run_calls devs markers). is_update call"
proof (induction devs arbitrary: markers)
  case Nil
  show ?case by simp
next
  case (Cons device rest)
  from Cons.prems have here: "renderable device \<longrightarrow> device_sn device \<in> fst ` set markers"
    and rest: "rendered_sns rest \<subseteq> fst ` set markers"
    by (auto simp: rendered_sns_def)
  from rest have "rendered_sns rest \<subseteq> fst ` set (table_step device markers)"
    by (auto simp: keys_table_step)
  from Cons.IH [OF this] step_calls_existing [OF here] show ?case by auto
qed

lemma settled_table_step: "settled markers device \<Longrightarrow> table_step device markers = markers"
  by (auto simp: settled_def table_step_def update_triv split: option.splits)

lemma settled_step_calls:
  "settled markers device \<Longrightarrow>
     step_calls device markers = (if renderable device then reapplied markers device else [])"
  by (auto simp: settled_def step_calls_def reapplied_def rendered_marker_def nan_position_def
                 strict_ne_def renderable_def
           split: option.splits)

lemma settled_run:
  "\<forall>d \<in> set devs. settled markers d \<Longrightarrow>
     table_run devs markers = markers
     \<and> run_calls devs markers = concat (map (reapplied markers) (filter renderable devs))"
  by (induction devs) (simp_all add: settled_table_step settled_step_calls)

lemma table_run_rendered:
  assumes "distinct (map device_sn (filter renderable devs))"
    and "d \<in> set devs" and "renderable d" and "telemetry d = Some t"
  shows "map_of (table_run devs markers) (device_sn d)
           = Some (rendered_marker d t (open_of markers (device_sn d)))"
  using assms(1,2)
proof (induction devs arbitrary: markers)
  case Nil
  then show ?case by simp
next
  case (Cons device rest)
  from Cons.prems(1) have dist: "distinct (map device_sn (filter renderable rest))"
    by (simp split: if_splits)
  show ?case
  proof (cases "d \<in> set rest")
    case True
    from Cons.IH [OF dist True, of "table_step device markers"] show ?thesis
      by (simp add: open_of_table_step)
  next
    case False
    with Cons.prems(2) have eq: "device = d" by simp
    with Cons.prems(1) assms(3) have "device_sn d \<notin> rendered_sns rest"
      by (auto simp: rendered_sns_def)
    from map_of_table_run_untouched [OF this]
    show ?thesis
      by (simp add: eq map_of_table_step assms(3,4))
  qed
qed

lemma length_concat_three:
  "\<forall>x \<in> set xs. length (f x) = 3 \<Longrightarrow> length (concat (map f xs)) = 3 * length xs"
  by (induction xs) simp_all

lemma length_reapplied:
  "device_sn device \<in> fst ` set markers \<Longrightarrow> length (reapplied markers device) = 3"
  by (auto simp: reapplied_def map_of_eq_None_iff split: option.splits)

text \<open>
  Claim C6, as amended. On a marker table with one entry for each serial, a second
  pass on the same snapshot completes, creates no marker, removes no marker, and ends
  with the marker table as the first pass left it. When no two rendered devices of the
  snapshot share a serial, its calls are exactly three for each rendered device, in the
  order of the snapshot: they re-apply the icon, the popup content and the z-order that
  the marker already holds, and none of them moves a marker.
\<close>

theorem reconcile_twice:
  assumes "distinct (map fst markers)"
    and "marker_effect True devs markers = Inr st1"
  shows "\<exists>st2. marker_effect True devs (markersMap st1) = Inr st2
           \<and> markersMap st2 = markersMap st1
           \<and> (\<forall>call \<in> set (ops st2). is_update call)
           \<and> (distinct (map device_sn (filter renderable devs)) \<longrightarrow>
                ops st2 = concat (map (reapplied (markersMap st1)) (filter renderable devs))
                \<and> length (ops st2) = 3 * length (filter renderable devs))"
proof -
  let ?R = "rendered_sns devs"
  let ?ms1 = "AList.restrict ?R (table_run devs markers)"
  have ms1: "markersMap st1 = ?ms1" by (rule marker_effect_Inr(1) [OF assms(2)])
  have nan: "\<forall>d \<in> set devs. renderable d \<longrightarrow> \<not> nan_position d"
    by (rule marker_effect_Inr(4) [OF assms(2)])
  from marker_effect_total [OF nan] obtain st2 where
    st2: "marker_effect True devs ?ms1 = Inr st2" by blast
  have keys1: "fst ` set ?ms1 = ?R" by (auto simp: keys_table_run)
  have fixed: "table_run devs ?ms1 = ?ms1" by (rule table_fixpoint [OF assms(1)])
  have table: "markersMap st2 = ?ms1"
    by (simp add: marker_effect_Inr(1) [OF st2] fixed)
  have "[sn \<leftarrow> map fst ?ms1. sn \<notin> ?R] = []"
    using keys1 by (auto simp: filter_empty_conv)
  then have calls: "ops st2 = run_calls devs ?ms1"
    by (simp add: marker_effect_Inr(2) [OF st2] fixed)
  have upd: "\<forall>call \<in> set (ops st2). is_update call"
    unfolding calls by (rule run_calls_existing) (simp add: keys_table_run)
  have exact: "ops st2 = concat (map (reapplied ?ms1) (filter renderable devs))
               \<and> length (ops st2) = 3 * length (filter renderable devs)"
    if dist: "distinct (map device_sn (filter renderable devs))"
  proof -
    have "\<forall>d \<in> set devs. settled ?ms1 d"
    proof
      fix d assume d: "d \<in> set devs"
      show "settled ?ms1 d"
      proof (cases "telemetry d")
        case None
        then show ?thesis by (simp add: settled_def)
      next
        case (Some t)
        show ?thesis
        proof (cases "renderable d")
          case False
          with Some show ?thesis by (simp add: settled_def)
        next
          case True
          with d have in_R: "device_sn d \<in> ?R" by (auto simp: rendered_sns_def)
          then have same: "map_of ?ms1 (device_sn d)
                             = map_of (table_run devs markers) (device_sn d)"
            by simp
          have there: "map_of (table_run devs markers) (device_sn d)
                         = Some (rendered_marker d t (open_of markers (device_sn d)))"
            by (rule table_run_rendered [OF dist d True Some])
          from same there have "open_of ?ms1 (device_sn d) = open_of markers (device_sn d)"
            by (simp add: open_of_def rendered_marker_def)
          with same there nan d True Some show ?thesis by (simp add: settled_def)
        qed
      qed
    qed
    from settled_run [OF this]
    have run: "ops st2 = concat (map (reapplied ?ms1) (filter renderable devs))"
      by (simp add: calls)
    have "\<forall>d \<in> set (filter renderable devs). length (reapplied ?ms1 d) = 3"
    proof
      fix d assume "d \<in> set (filter renderable devs)"
      then have "device_sn d \<in> ?R" by (auto simp: rendered_sns_def)
      with keys1 have "device_sn d \<in> fst ` set ?ms1" by simp
      then show "length (reapplied ?ms1 d) = 3" by (rule length_reapplied)
    qed
    from length_concat_three [OF this] run show ?thesis by simp
  qed
  from st2 table upd exact show ?thesis
    by (auto simp: ms1)
qed

theorem reconcile_twice_witness:
  "distinct (map fst example_markers)
   \<and> marker_effect True example_devices example_markers = Inr pass1
   \<and> marker_effect True example_devices (markersMap pass1) = Inr pass2
   \<and> markersMap pass2 = markersMap pass1
   \<and> list_all is_update (ops pass2)
   \<and> distinct (map device_sn (filter renderable example_devices))
   \<and> ops pass2 = concat (map (reapplied (markersMap pass1)) (filter renderable example_devices))
   \<and> length (ops pass2) = 3 * length (filter renderable example_devices)"
proof -
  have h: "distinct (map fst example_markers)" by (simp add: example_markers_def)
  have d: "distinct (map device_sn (filter renderable example_devices))"
    by (simp add: example_devices_def device_A_def device_C_def)
  from reconcile_twice [OF h first_pass] obtain st2 where
    "marker_effect True example_devices (markersMap pass1) = Inr st2"
    and c: "markersMap st2 = markersMap pass1" "\<forall>call \<in> set (ops st2). is_update call"
      "distinct (map device_sn (filter renderable example_devices)) \<longrightarrow>
         ops st2 = concat (map (reapplied (markersMap pass1)) (filter renderable example_devices))
         \<and> length (ops st2) = 3 * length (filter renderable example_devices)"
    by blast
  with second_pass have eq: "st2 = pass2" by simp
  from c(1) eq have c1: "markersMap pass2 = markersMap pass1" by blast
  from c(2) eq have "\<forall>call \<in> set (ops pass2). is_update call" by blast
  then have c2: "list_all is_update (ops pass2)" by (simp only: list_all_iff)
  from c(3) d eq have c3:
    "ops pass2 = concat (map (reapplied (markersMap pass1)) (filter renderable example_devices))"
    "length (ops pass2) = 3 * length (filter renderable example_devices)"
    by blast+
  show ?thesis by (intro conjI h first_pass second_pass c1 c2 d c3)
qed

text \<open>
  Claim C6 as stated fails: the second pass on a snapshot with one rendered device makes
  three calls on its marker.
\<close>

theorem reconcile_twice_counterexample:
  "marker_effect True example_devices example_markers = Inr pass1
   \<and> marker_effect True example_devices (markersMap pass1) = Inr pass2
   \<and> ops pass2 = [SetIcon ''SN-A'' icon_A, BindPopup ''SN-A'' popup_A,
                   SetZIndexOffset ''SN-A'' 1000]"
  by (simp add: first_pass second_pass pass2_def)

text \<open>
  Claim C10. A response of code \<open>0\<close> with an empty device list empties the device
  collection and makes the link healthy; the pass on the emptied collection removes
  every marker and leaves the table empty.
\<close>

theorem empty_poll_clears_markers:
  assumes "code response = JNumber (Num 0)" and "data response = []"
  shows "devices (fetchDevices isBackground now (Resolved (Some response)) st) = []
         \<and> isLinkHealthy (fetchDevices isBackground now (Resolved (Some response)) st) = Healthy
         \<and> marker_effect True
              (devices (fetchDevices isBackground now (Resolved (Some response)) st)) markers
             = Inr \<lparr> markersMap = [], activeSns = {},
                     ops = map RemoveMarker (map fst markers) \<rparr>"
  using assms
  by (simp add: fetchDevices_def fetchDevices_complete_def fetchDevices_issue_def
        apply_response_def Let_def marker_effect_def sweep_def)

theorem empty_poll_clears_markers_witness:
  "code (getProjectTopology example_runtime (Responded 200 [] (Some body_no_drones)))
     = JNumber (Num 0)
   \<and> data (getProjectTopology example_runtime (Responded 200 [] (Some body_no_drones))) = []
   \<and> devices state_A = [device_A]
   \<and> devices (fetchDevices True 2000
        (Resolved (Some (getProjectTopology example_runtime
                          (Responded 200 [] (Some body_no_drones))))) state_A) = []
   \<and> marker_effect True
        (devices (fetchDevices True 2000
           (Resolved (Some (getProjectTopology example_runtime
                             (Responded 200 [] (Some body_no_drones))))) state_A))
        [(''SN-A'', marker_A)]
       = Inr \<lparr> markersMap = [], activeSns = {}, ops = [RemoveMarker ''SN-A''] \<rparr>"
proof -
  let ?r = "getProjectTopology example_runtime (Responded 200 [] (Some body_no_drones))"
  have h1: "code ?r = JNumber (Num 0)" by (simp add: no_drones_response)
  have h2: "data ?r = []" by (simp add: no_drones_response)
  have s: "devices state_A = [device_A]" by (simp add: state_A_def)
  note c = empty_poll_clears_markers [OF h1 h2, of True 2000 state_A "[(''SN-A'', marker_A)]"]
  from c have c1: "devices (fetchDevices True 2000 (Resolved (Some ?r)) state_A) = []"
    by (rule conjunct1)
  from c have "marker_effect True
        (devices (fetchDevices True 2000 (Resolved (Some ?r)) state_A)) [(''SN-A'', marker_A)]
       = Inr \<lparr> markersMap = [], activeSns = {},
               ops = map RemoveMarker (map fst [(''SN-A'', marker_A)]) \<rparr>"
    by blast
  then have c3: "marker_effect True
        (devices (fetchDevices True 2000 (Resolved (Some ?r)) state_A)) [(''SN-A'', marker_A)]
       = Inr \<lparr> markersMap = [], activeSns = {}, ops = [RemoveMarker ''SN-A''] \<rparr>"
    by simp
  show ?thesis by (intro conjI h1 h2 s c1 c3)
qed

end
